theory Spec2Isabelle
  imports Main "HOL-Library.Word"
begin

unbundle bit_operations_syntax

section \<open>Host memory, pointers and fixed-width integers\<close>

text \<open>
  \<^verbatim>\<open>ElfReader\<close> (src/core/loader/elf.cpp) receives a bare \<^verbatim>\<open>void *\<close> and overlays the ELF
  structures on the memory behind it; it never learns the length of the buffer. The model
  therefore works on the host's flat, byte-addressed memory: a pointer is a host address
  (an integer, \<open>0\<close> being \<^verbatim>\<open>nullptr\<close>), and the memory is a total function from addresses to
  bytes. The caller's buffer is the part of that memory from the pointer on. Where the
  source steps outside an object (a read outside the buffer, a dereference of \<^verbatim>\<open>nullptr\<close>, a
  store outside a local array) the behaviour of the C++ code is undefined. The functions
  named after the source are total: they answer such a read with whatever the memory
  function holds there, and describe every run of the code that stays inside its objects.
  For \<^verbatim>\<open>LoadSymbols\<close> and \<^verbatim>\<open>LoadInto\<close> there is a second, checked form
  (\<open>LoadSymbols_checked\<close>, \<open>LoadInto_checked\<close>) whose result is either a fault, which stands for
  undefined behaviour, or the value the run returns.

  Conventions taken from the build the source targets: little-endian host; \<^verbatim>\<open>int\<close> is 32 bits
  wide, and converting an \<^verbatim>\<open>unsigned int\<close> to \<^verbatim>\<open>int\<close> keeps the bit pattern (\<open>sint\<close>); adding an
  \<^verbatim>\<open>unsigned int\<close> to a pointer adds its unsigned value (\<open>uint\<close>); host addresses do not wrap.
\<close>

type_synonym u8 = "8 word"
type_synonym u16 = "16 word"
type_synonym u32 = "32 word"

type_synonym pointer = int
type_synonym memory = "pointer \<Rightarrow> u8"

definition nullptr :: pointer where
  "nullptr = 0"

definition read_u8 :: "memory \<Rightarrow> pointer \<Rightarrow> u8" where
  "read_u8 m p = m p"

definition read_u16 :: "memory \<Rightarrow> pointer \<Rightarrow> u16" where
  "read_u16 m p = ucast (m p) OR push_bit 8 (ucast (m (p + 1)))"

definition read_u32 :: "memory \<Rightarrow> pointer \<Rightarrow> u32" where
  "read_u32 m p =
     ucast (m p) OR push_bit 8 (ucast (m (p + 1))) OR
     push_bit 16 (ucast (m (p + 2))) OR push_bit 24 (ucast (m (p + 3)))"

text \<open>The \<open>n\<close> bytes \<^verbatim>\<open>memcpy\<close> reads, starting at \<open>src\<close>.\<close>

definition copy_bytes :: "memory \<Rightarrow> pointer \<Rightarrow> nat \<Rightarrow> u8 list" where
  "copy_bytes m src n = map (\<lambda>k. m (src + int k)) [0..<n]"

section \<open>ELF header constants\<close>

definition ET_NONE :: u16 where "ET_NONE = 0"
definition ET_REL :: u16 where "ET_REL = 1"
definition ET_EXEC :: u16 where "ET_EXEC = 2"
definition ET_CORE :: u16 where "ET_CORE = 4"

definition EI_NIDENT :: nat where "EI_NIDENT = 16"

definition SHT_NULL :: u32 where "SHT_NULL = 0"
definition SHT_PROGBITS :: u32 where "SHT_PROGBITS = 1"
definition SHT_SYMTAB :: u32 where "SHT_SYMTAB = 2"
definition SHT_STRTAB :: u32 where "SHT_STRTAB = 3"
definition SHT_NOBITS :: u32 where "SHT_NOBITS = 8"

definition PT_NULL :: u32 where "PT_NULL = 0"
definition PT_LOAD :: u32 where "PT_LOAD = 1"
definition PT_DYNAMIC :: u32 where "PT_DYNAMIC = 2"
definition PT_INTERP :: u32 where "PT_INTERP = 3"
definition PT_NOTE :: u32 where "PT_NOTE = 4"

section \<open>The overlaid structures\<close>

record Elf32_Ehdr =
  e_ident :: "u8 list"
  e_type :: u16
  e_machine :: u16
  e_version :: u32
  e_entry :: u32
  e_phoff :: u32
  e_shoff :: u32
  e_flags :: u32
  e_ehsize :: u16
  e_phentsize :: u16
  e_phnum :: u16
  e_shentsize :: u16
  e_shnum :: u16
  e_shstrndx :: u16

record Elf32_Shdr =
  sh_name :: u32
  sh_type :: u32
  sh_flags :: u32
  sh_addr :: u32
  sh_offset :: u32
  sh_size :: u32
  sh_link :: u32
  sh_info :: u32
  sh_addralign :: u32
  sh_entsize :: u32

record Elf32_Phdr =
  p_type :: u32
  p_offset :: u32
  p_vaddr :: u32
  p_paddr :: u32
  p_filesz :: u32
  p_memsz :: u32
  p_flags :: u32
  p_align :: u32

record Elf32_Sym =
  st_name :: u32
  st_value :: u32
  st_size :: u32
  st_info :: u8
  st_other :: u8
  st_shndx :: u16

text \<open>
  Reading a structure through a pointer cast: each field at its offset in the C layout
  (no padding arises in these four structures).
\<close>

definition read_Ehdr :: "memory \<Rightarrow> pointer \<Rightarrow> Elf32_Ehdr" where
  "read_Ehdr m p =
     \<lparr>e_ident = copy_bytes m p EI_NIDENT,
      e_type = read_u16 m (p + 16),
      e_machine = read_u16 m (p + 18),
      e_version = read_u32 m (p + 20),
      e_entry = read_u32 m (p + 24),
      e_phoff = read_u32 m (p + 28),
      e_shoff = read_u32 m (p + 32),
      e_flags = read_u32 m (p + 36),
      e_ehsize = read_u16 m (p + 40),
      e_phentsize = read_u16 m (p + 42),
      e_phnum = read_u16 m (p + 44),
      e_shentsize = read_u16 m (p + 46),
      e_shnum = read_u16 m (p + 48),
      e_shstrndx = read_u16 m (p + 50)\<rparr>"

definition read_Shdr :: "memory \<Rightarrow> pointer \<Rightarrow> Elf32_Shdr" where
  "read_Shdr m p =
     \<lparr>sh_name = read_u32 m p,
      sh_type = read_u32 m (p + 4),
      sh_flags = read_u32 m (p + 8),
      sh_addr = read_u32 m (p + 12),
      sh_offset = read_u32 m (p + 16),
      sh_size = read_u32 m (p + 20),
      sh_link = read_u32 m (p + 24),
      sh_info = read_u32 m (p + 28),
      sh_addralign = read_u32 m (p + 32),
      sh_entsize = read_u32 m (p + 36)\<rparr>"

definition read_Phdr :: "memory \<Rightarrow> pointer \<Rightarrow> Elf32_Phdr" where
  "read_Phdr m p =
     \<lparr>p_type = read_u32 m p,
      p_offset = read_u32 m (p + 4),
      p_vaddr = read_u32 m (p + 8),
      p_paddr = read_u32 m (p + 12),
      p_filesz = read_u32 m (p + 16),
      p_memsz = read_u32 m (p + 20),
      p_flags = read_u32 m (p + 24),
      p_align = read_u32 m (p + 28)\<rparr>"

definition read_Sym :: "memory \<Rightarrow> pointer \<Rightarrow> Elf32_Sym" where
  "read_Sym m p =
     \<lparr>st_name = read_u32 m p,
      st_value = read_u32 m (p + 4),
      st_size = read_u32 m (p + 8),
      st_info = read_u8 m (p + 12),
      st_other = read_u8 m (p + 13),
      st_shndx = read_u16 m (p + 14)\<rparr>"

definition sizeof_Elf32_Shdr :: int where "sizeof_Elf32_Shdr = 40"
definition sizeof_Elf32_Phdr :: int where "sizeof_Elf32_Phdr = 32"
definition sizeof_Elf32_Sym :: nat where "sizeof_Elf32_Sym = 16"

section \<open>Calls that leave the reader\<close>

text \<open>
  \<^verbatim>\<open>Symbols::Add\<close> and \<^verbatim>\<open>Memory::GetPointer\<close> are declared in headers outside this file;
  the specification gives them as the interfaces \<^verbatim>\<open>add(address, name, size, type)\<close> of the
  symbol registry and \<^verbatim>\<open>write(address, bytes)\<close> of the target memory. The model records
  each call as an event, in program order: \<open>SymbolsAdd address name size type\<close> with
  \<open>name\<close> the \<^verbatim>\<open>const char *\<close> handed over, and \<open>MemCopy addr bytes\<close> for
  \<^verbatim>\<open>memcpy(Memory::GetPointer(addr), src, n)\<close> with \<open>bytes\<close> the \<open>n\<close> bytes read from
  \<open>src\<close>. The emulated memory behind \<^verbatim>\<open>Memory::GetPointer\<close> is taken to be disjoint from
  the memory the reader reads, so that a copy does not change what later reads see. The
  logging macros have no effect on the reader and are left out.
\<close>

datatype event =
    SymbolsAdd u32 pointer u32 u32
  | MemCopy u32 "u8 list"

fun is_SymbolsAdd :: "event \<Rightarrow> bool" where
  "is_SymbolsAdd (SymbolsAdd a n s t) = True"
| "is_SymbolsAdd (MemCopy a bs) = False"

fun is_MemCopy :: "event \<Rightarrow> bool" where
  "is_MemCopy (SymbolsAdd a n s t) = False"
| "is_MemCopy (MemCopy a bs) = True"

section \<open>ElfReader\<close>

text \<open>
  The fields of the class. \<^verbatim>\<open>relocate\<close> is not initialised by the constructor: it is
  \<open>None\<close> until \<^verbatim>\<open>LoadInto\<close> assigns it. (\<^verbatim>\<open>base32\<close> is the same address as \<^verbatim>\<open>base\<close>, and
  \<^verbatim>\<open>sectionAddrs\<close> is never assigned; neither is used by the functions below.)
\<close>

record ElfReader =
  base :: pointer
  header :: pointer
  segments :: pointer
  sections :: pointer
  relocate :: "bool option"
  entryPoint :: u32

text \<open>\<^verbatim>\<open>*header\<close>, \<^verbatim>\<open>sections[section]\<close> and \<^verbatim>\<open>segments[segment]\<close>.\<close>

definition Ehdr :: "memory \<Rightarrow> ElfReader \<Rightarrow> Elf32_Ehdr" where
  "Ehdr m r = read_Ehdr m (header r)"

definition Shdr :: "memory \<Rightarrow> ElfReader \<Rightarrow> int \<Rightarrow> Elf32_Shdr" where
  "Shdr m r section = read_Shdr m (sections r + sizeof_Elf32_Shdr * section)"

definition Phdr :: "memory \<Rightarrow> ElfReader \<Rightarrow> int \<Rightarrow> Elf32_Phdr" where
  "Phdr m r segment = read_Phdr m (segments r + sizeof_Elf32_Phdr * segment)"

definition GetEntryPoint :: "ElfReader \<Rightarrow> u32" where
  "GetEntryPoint r = entryPoint r"

definition GetNumSegments :: "memory \<Rightarrow> ElfReader \<Rightarrow> int" where
  "GetNumSegments m r = uint (e_phnum (Ehdr m r))"

definition GetNumSections :: "memory \<Rightarrow> ElfReader \<Rightarrow> int" where
  "GetNumSections m r = uint (e_shnum (Ehdr m r))"

definition DidRelocate :: "ElfReader \<Rightarrow> bool option" where
  "DidRelocate r = relocate r"

text \<open>\<^verbatim>\<open>GetPtr(int offset)\<close>: callers pass an \<^verbatim>\<open>Elf32_Off\<close>, converted to \<^verbatim>\<open>int\<close> at the call.\<close>

definition GetPtr :: "ElfReader \<Rightarrow> int \<Rightarrow> pointer" where
  "GetPtr r offset = base r + offset"

definition GetSectionDataPtr :: "memory \<Rightarrow> ElfReader \<Rightarrow> int \<Rightarrow> pointer" where
  "GetSectionDataPtr m r section =
     (if section < 0 \<or> section \<ge> uint (e_shnum (Ehdr m r)) then nullptr
      else if sh_type (Shdr m r section) \<noteq> SHT_NOBITS
        then GetPtr r (sint (sh_offset (Shdr m r section)))
      else nullptr)"

definition IsCodeSection :: "memory \<Rightarrow> ElfReader \<Rightarrow> int \<Rightarrow> bool" where
  "IsCodeSection m r section = (sh_type (Shdr m r section) = SHT_PROGBITS)"

definition GetSegmentPtr :: "memory \<Rightarrow> ElfReader \<Rightarrow> int \<Rightarrow> pointer" where
  "GetSegmentPtr m r segment = GetPtr r (sint (p_offset (Phdr m r segment)))"

definition GetSectionSize :: "memory \<Rightarrow> ElfReader \<Rightarrow> int \<Rightarrow> int" where
  "GetSectionSize m r section = sint (sh_size (Shdr m r section))"

definition GetSectionName :: "memory \<Rightarrow> ElfReader \<Rightarrow> int \<Rightarrow> pointer" where
  "GetSectionName m r section =
     (if sh_type (Shdr m r section) = SHT_NULL then nullptr
      else
        let name_offset = sint (sh_name (Shdr m r section));
            ptr = GetSectionDataPtr m r (uint (e_shstrndx (Ehdr m r)))
        in if ptr \<noteq> nullptr then ptr + name_offset else nullptr)"

text \<open>
  \<^verbatim>\<open>strcmp(name, secname)\<close>. The first argument is the caller's string, given by its
  characters (a NUL among them ends it, as in C); the second is read from memory. The
  result is the difference of the first two bytes that differ, read as \<^verbatim>\<open>unsigned char\<close>,
  and \<open>0\<close> when the strings are equal; the source only tests it against \<open>0\<close>.
\<close>

fun strcmp :: "memory \<Rightarrow> string \<Rightarrow> pointer \<Rightarrow> int" where
  "strcmp m [] s2 = 0 - uint (m s2)"
| "strcmp m (c # cs) s2 =
     (if (of_char c :: u8) = 0 then 0 - uint (m s2)
      else if (of_char c :: u8) \<noteq> m s2 then uint (of_char c :: u8) - uint (m s2)
      else strcmp m cs (s2 + 1))"

text \<open>The scan of \<^verbatim>\<open>GetSectionByName\<close>: \<open>i\<close> runs from \<^verbatim>\<open>firstSection\<close> while \<open>i < e_shnum\<close>.\<close>

function GetSectionByName_loop :: "memory \<Rightarrow> ElfReader \<Rightarrow> string \<Rightarrow> int \<Rightarrow> int" where
  "GetSectionByName_loop m r name i =
     (if i < uint (e_shnum (Ehdr m r)) then
        (if GetSectionName m r i \<noteq> nullptr \<and> strcmp m name (GetSectionName m r i) = 0
         then i
         else GetSectionByName_loop m r name (i + 1))
      else - 1)"
  by pat_completeness auto
termination
  by (relation "measure (\<lambda>(m, r, name, i). nat (uint (e_shnum (Ehdr m r)) - i))") auto

declare GetSectionByName_loop.simps [simp del]

definition GetSectionByName :: "memory \<Rightarrow> ElfReader \<Rightarrow> string \<Rightarrow> int \<Rightarrow> int" where
  "GetSectionByName m r name firstSection = GetSectionByName_loop m r name firstSection"

text \<open>
  The loop of \<^verbatim>\<open>LoadSymbols\<close> over \<^verbatim>\<open>sym < numSymbols\<close> (the counter is \<open>symx\<close>
  here), carrying \<^verbatim>\<open>hasSymbols\<close> and the events. This is the total form: it reads
  \<^verbatim>\<open>symtab[sym]\<close> from the memory whatever \<^verbatim>\<open>symtab\<close> is; the run of the code with
  \<^verbatim>\<open>symtab\<close> null is a fault in \<open>LoadSymbols_checked\<close> below.
  \<^verbatim>\<open>int size\<close> and \<^verbatim>\<open>int type\<close> are kept as 32-bit words.
\<close>

function LoadSymbols_loop ::
  "memory \<Rightarrow> pointer \<Rightarrow> pointer \<Rightarrow> nat \<Rightarrow> nat \<Rightarrow> bool \<times> event list \<Rightarrow> bool \<times> event list" where
  "LoadSymbols_loop m symtab stringBase numSymbols symx (hasSymbols, es) =
     (if symx < numSymbols then
        (if st_size (read_Sym m (symtab + int sizeof_Elf32_Sym * int symx)) = 0
         then LoadSymbols_loop m symtab stringBase numSymbols (symx + 1) (hasSymbols, es)
         else LoadSymbols_loop m symtab stringBase numSymbols (symx + 1)
           (True,
            es @ [SymbolsAdd
                    (st_value (read_Sym m (symtab + int sizeof_Elf32_Sym * int symx)))
                    (stringBase + uint (st_name (read_Sym m (symtab + int sizeof_Elf32_Sym * int symx))))
                    (st_size (read_Sym m (symtab + int sizeof_Elf32_Sym * int symx)))
                    (ucast (st_info (read_Sym m (symtab + int sizeof_Elf32_Sym * int symx)) AND 0xF))]))
      else (hasSymbols, es))"
  by pat_completeness auto
termination
  by (relation "measure (\<lambda>(m, symtab, stringBase, numSymbols, symx, st). numSymbols - symx)") auto

declare LoadSymbols_loop.simps [simp del]

definition LoadSymbols :: "memory \<Rightarrow> ElfReader \<Rightarrow> event list \<Rightarrow> bool \<times> event list" where
  "LoadSymbols m r es =
     (let sec = GetSectionByName m r ''.symtab'' 0 in
      if sec \<noteq> - 1 then
        let stringSection = sint (sh_link (Shdr m r sec));
            stringBase = GetSectionDataPtr m r stringSection;
            symtab = GetSectionDataPtr m r sec;
            numSymbols = unat (sh_size (Shdr m r sec)) div sizeof_Elf32_Sym
        in LoadSymbols_loop m symtab stringBase numSymbols 0 (False, es)
      else (False, es))"

text \<open>The constructor: sets the pointers and the entry point, then calls \<^verbatim>\<open>LoadSymbols\<close>
  and drops its result.\<close>

definition ElfReader_ctor :: "memory \<Rightarrow> pointer \<Rightarrow> event list \<Rightarrow> ElfReader \<times> event list" where
  "ElfReader_ctor m ptr es =
     (let r = \<lparr>base = ptr,
               header = ptr,
               segments = ptr + uint (e_phoff (read_Ehdr m ptr)),
               sections = ptr + uint (e_shoff (read_Ehdr m ptr)),
               relocate = None,
               entryPoint = e_entry (read_Ehdr m ptr)\<rparr>
      in (r, snd (LoadSymbols m r es)))"

text \<open>
  \<^verbatim>\<open>LoadInto\<close>. The local \<^verbatim>\<open>u32 segment_addr[32]\<close> starts uninitialised (\<open>None\<close> in each of
  its 32 cells). A store \<^verbatim>\<open>segment_addr[i] = ...\<close> with \<open>i < 32\<close> updates the cell. With
  \<open>32 \<le> i\<close> the store is outside the array, which is undefined behaviour in C++: this
  total form leaves the array as it is and records \<open>i\<close> among the stray stores, so that the
  side condition of every store can be stated; what it computes from there on says nothing
  about the code, whose run ends in a fault in \<open>LoadInto_checked\<close> below.
  The loop state is the array, the stray stores and the events.
\<close>

function LoadInto_loop ::
  "memory \<Rightarrow> ElfReader \<Rightarrow> u32 \<Rightarrow> nat \<Rightarrow> u32 option list \<times> nat list \<times> event list
     \<Rightarrow> u32 option list \<times> nat list \<times> event list" where
  "LoadInto_loop m r base_addr i (segment_addr, stray, es) =
     (if i < unat (e_phnum (Ehdr m r)) then
        (if p_type (Phdr m r (int i)) = PT_LOAD then
           LoadInto_loop m r base_addr (i + 1)
             (if i < 32 then segment_addr[i := Some (base_addr + p_vaddr (Phdr m r (int i)))]
              else segment_addr,
              if i < 32 then stray else stray @ [i],
              es @ [MemCopy (base_addr + p_vaddr (Phdr m r (int i)))
                      (copy_bytes m (GetSegmentPtr m r (int i))
                         (unat (p_filesz (Phdr m r (int i)))))])
         else LoadInto_loop m r base_addr (i + 1) (segment_addr, stray, es))
      else (segment_addr, stray, es))"
  by pat_completeness auto
termination
  by (relation "measure (\<lambda>(m, r, base_addr, i, st). unat (e_phnum (Ehdr m r)) - i)") auto

declare LoadInto_loop.simps [simp del]

text \<open>What a call of \<^verbatim>\<open>LoadInto\<close> leaves behind: the value returned, the reader's fields after
  the call, the local array and the stray stores when the loop ends, and the events.\<close>

record LoadInto_result =
  returned :: bool
  reader :: ElfReader
  segment_addr :: "u32 option list"
  stray_stores :: "nat list"
  events :: "event list"

definition LoadInto :: "memory \<Rightarrow> ElfReader \<Rightarrow> u32 \<Rightarrow> event list \<Rightarrow> LoadInto_result" where
  "LoadInto m r vaddr es =
     (let rel = (e_type (Ehdr m r) \<noteq> ET_EXEC);
          r' = (if rel then r\<lparr>relocate := Some rel, entryPoint := entryPoint r + vaddr\<rparr>
                else r\<lparr>relocate := Some rel\<rparr>);
          base_addr = (if rel then vaddr else 0);
          st = LoadInto_loop m r' base_addr 0 (replicate 32 None, [], es)
      in \<lparr>returned = True,
          reader = r',
          segment_addr = fst st,
          stray_stores = fst (snd st),
          events = snd (snd st)\<rparr>)"

text \<open>\<open>n\<close> calls of \<^verbatim>\<open>LoadInto\<close> with the same base address on one reader, one after the other.\<close>

fun LoadInto_times :: "memory \<Rightarrow> u32 \<Rightarrow> nat \<Rightarrow> ElfReader \<times> event list \<Rightarrow> ElfReader \<times> event list" where
  "LoadInto_times m vaddr 0 (r, es) = (r, es)"
| "LoadInto_times m vaddr (Suc n) (r, es) =
     LoadInto_times m vaddr n (reader (LoadInto m r vaddr es), events (LoadInto m r vaddr es))"

section \<open>Undefined behaviour as an outcome\<close>

text \<open>
  A fault stands for undefined behaviour of the C++ code: a dereference of \<^verbatim>\<open>nullptr\<close>, a
  store to \<^verbatim>\<open>segment_addr[i]\<close> outside the 32 cells of the array, or an access to bytes that
  are not all inside the caller's buffer (given by the address of its first byte). After a
  fault nothing is promised about the run: it may crash, or go on with any values.
\<close>

datatype fault =
    NullDereference
  | StackStore nat
  | OutOfBuffer pointer



text \<open>
  \<^verbatim>\<open>LoadSymbols\<close>, checked for the pointer it dereferences without a test: \<^verbatim>\<open>symtab\<close> is the
  result of \<^verbatim>\<open>GetSectionDataPtr(sec)\<close>, which is \<^verbatim>\<open>nullptr\<close> for a section of type
  \<^verbatim>\<open>SHT_NOBITS\<close>, and \<^verbatim>\<open>symtab[sym]\<close> is read in every round of the loop. (\<^verbatim>\<open>GetSectionName\<close>
  tests the same kind of pointer before it uses it.) All other reads are answered by the
  memory as in \<open>LoadSymbols\<close>, and \<^verbatim>\<open>stringBase + st_name\<close> is handed to \<^verbatim>\<open>Symbols::Add\<close> as
  computed.
\<close>

function LoadSymbols_loop_checked ::
  "memory \<Rightarrow> pointer \<Rightarrow> pointer \<Rightarrow> nat \<Rightarrow> nat \<Rightarrow> bool \<times> event list
     \<Rightarrow> fault + bool \<times> event list" where
  "LoadSymbols_loop_checked m symtab stringBase numSymbols symx (hasSymbols, es) =
     (if symx < numSymbols then
        (if symtab = nullptr then Inl NullDereference
         else if st_size (read_Sym m (symtab + int sizeof_Elf32_Sym * int symx)) = 0
         then LoadSymbols_loop_checked m symtab stringBase numSymbols (symx + 1) (hasSymbols, es)
         else LoadSymbols_loop_checked m symtab stringBase numSymbols (symx + 1)
           (True,
            es @ [SymbolsAdd
                    (st_value (read_Sym m (symtab + int sizeof_Elf32_Sym * int symx)))
                    (stringBase + uint (st_name (read_Sym m (symtab + int sizeof_Elf32_Sym * int symx))))
                    (st_size (read_Sym m (symtab + int sizeof_Elf32_Sym * int symx)))
                    (ucast (st_info (read_Sym m (symtab + int sizeof_Elf32_Sym * int symx)) AND 0xF))]))
      else Inr (hasSymbols, es))"
  by pat_completeness auto
termination
  by (relation "measure (\<lambda>(m, symtab, stringBase, numSymbols, symx, st). numSymbols - symx)") auto

declare LoadSymbols_loop_checked.simps [simp del]

definition LoadSymbols_checked ::
  "memory \<Rightarrow> ElfReader \<Rightarrow> event list \<Rightarrow> fault + bool \<times> event list" where
  "LoadSymbols_checked m r es =
     (let sec = GetSectionByName m r ''.symtab'' 0 in
      if sec \<noteq> - 1 then
        let stringSection = sint (sh_link (Shdr m r sec));
            stringBase = GetSectionDataPtr m r stringSection;
            symtab = GetSectionDataPtr m r sec;
            numSymbols = unat (sh_size (Shdr m r sec)) div sizeof_Elf32_Sym
        in LoadSymbols_loop_checked m symtab stringBase numSymbols 0 (False, es)
      else Inr (False, es))"




section \<open>Views used to state the properties\<close>

text \<open>The program-header array and the entries of a symbol-table section, as the loops
  read them; and the test \<^verbatim>\<open>GetSectionByName\<close> applies to a section.\<close>

definition program_headers :: "memory \<Rightarrow> ElfReader \<Rightarrow> Elf32_Phdr list" where
  "program_headers m r = map (\<lambda>i. Phdr m r (int i)) [0..<unat (e_phnum (Ehdr m r))]"

definition symbol_entries :: "memory \<Rightarrow> ElfReader \<Rightarrow> int \<Rightarrow> Elf32_Sym list" where
  "symbol_entries m r sec =
     map (\<lambda>k. read_Sym m (GetSectionDataPtr m r sec + int sizeof_Elf32_Sym * int k))
       [0..<unat (sh_size (Shdr m r sec)) div sizeof_Elf32_Sym]"

text \<open>The event of one \<^verbatim>\<open>memcpy\<close> of \<^verbatim>\<open>LoadInto\<close>, from the program header it is made for,
  and the event of one \<^verbatim>\<open>Symbols::Add\<close> of \<^verbatim>\<open>LoadSymbols\<close>, from the symbol entry.\<close>

definition copy_event :: "memory \<Rightarrow> ElfReader \<Rightarrow> u32 \<Rightarrow> Elf32_Phdr \<Rightarrow> event" where
  "copy_event m r base_addr p =
     MemCopy (base_addr + p_vaddr p) (copy_bytes m (GetPtr r (sint (p_offset p))) (unat (p_filesz p)))"

definition symbol_event :: "pointer \<Rightarrow> Elf32_Sym \<Rightarrow> event" where
  "symbol_event stringBase s =
     SymbolsAdd (st_value s) (stringBase + uint (st_name s)) (st_size s) (ucast (st_info s AND 0xF))"

definition name_matches :: "memory \<Rightarrow> ElfReader \<Rightarrow> string \<Rightarrow> int \<Rightarrow> bool" where
  "name_matches m r name i =
     (GetSectionName m r i \<noteq> nullptr \<and> strcmp m name (GetSectionName m r i) = 0)"



text \<open>The characters of \<open>name\<close> followed by NUL stand in memory at \<open>p\<close>.\<close>

definition cstring_at :: "memory \<Rightarrow> pointer \<Rightarrow> string \<Rightarrow> bool" where
  "cstring_at m p name =
     (copy_bytes m p (length name) = map of_char name \<and> m (p + int (length name)) = 0)"

section \<open>Example images\<close>

text \<open>
  An image is written as chunks \<open>(offset, bytes)\<close>. \<open>place b chunks\<close> is the memory that
  holds them from address \<open>b\<close> on (an offset covered by several chunks takes the first) and
  is zero elsewhere.
\<close>

fun chunk_byte :: "(int \<times> u8 list) list \<Rightarrow> int \<Rightarrow> u8" where
  "chunk_byte [] x = 0"
| "chunk_byte ((off, bs) # chunks) x =
     (if off \<le> x \<and> x < off + int (length bs) then bs ! nat (x - off) else chunk_byte chunks x)"

definition place :: "pointer \<Rightarrow> (int \<times> u8 list) list \<Rightarrow> memory" where
  "place b chunks a = chunk_byte chunks (a - b)"

text \<open>
  A shared object (\<^verbatim>\<open>ET_DYN\<close>) with entry \<open>0x100\<close>, no sections and three program headers at
  offset 52: a \<^verbatim>\<open>PT_LOAD\<close> of 4 bytes from offset 160 to \<open>0x1000\<close>, a \<^verbatim>\<open>PT_NOTE\<close>, and a
  \<^verbatim>\<open>PT_LOAD\<close> of 2 bytes from offset 164 to \<open>0x2000\<close>.
\<close>

definition image_dyn :: "(int \<times> u8 list) list" where
  "image_dyn =
     [(16, [3]), (25, [1]), (28, [52]), (44, [3]),
      (52, [1]), (56, [160]), (61, [0x10]), (68, [4]),
      (84, [4]),
      (116, [1]), (120, [164]), (125, [0x20]), (132, [2]),
      (160, [0xDE, 0xAD, 0xBE, 0xEF, 1, 2])]"

text \<open>The same file as an executable (\<^verbatim>\<open>ET_EXEC\<close>); and with 33 program headers, the one
  at index 32 a \<^verbatim>\<open>PT_LOAD\<close>.\<close>

definition image_exec :: "(int \<times> u8 list) list" where
  "image_exec = (16, [2]) # image_dyn"

definition image_many :: "(int \<times> u8 list) list" where
  "image_many = (44, [33]) # (1076, [1]) # image_dyn"

text \<open>
  An executable with four section headers at offset 64: the null section, \<^verbatim>\<open>.symtab\<close>
  (three entries at offset 224, linked to section 2), \<^verbatim>\<open>.strtab\<close> (at offset 272) and
  \<^verbatim>\<open>.shstrtab\<close> (at offset 288, named by \<^verbatim>\<open>e_shstrndx\<close>). The symbol table holds an empty
  entry, \<^verbatim>\<open>main\<close> (value \<open>0x1000\<close>, size 8, info \<open>0x12\<close>) and \<^verbatim>\<open>data\<close> (value \<open>0x2000\<close>,
  size 4, info \<open>0x11\<close>). One program header at offset 320: a \<^verbatim>\<open>PT_LOAD\<close> of 4 bytes from
  offset 273 to \<open>0x3000\<close>.
\<close>

definition image_syms :: "(int \<times> u8 list) list" where
  "image_syms =
     [(16, [2]), (28, [0x40, 0x01]), (32, [64]), (44, [1]), (48, [4]), (50, [3]),
      (104, [1]), (108, [2]), (120, [224]), (124, [48]), (128, [2]),
      (144, [9]), (148, [3]), (160, [0x10, 0x01]), (164, [10]),
      (184, [17]), (188, [3]), (200, [0x20, 0x01]), (204, [27]),
      (240, [1]), (245, [0x10]), (248, [8]), (252, [0x12]),
      (256, [6]), (261, [0x20]), (264, [4]), (268, [0x11]),
      (273, [0x6D, 0x61, 0x69, 0x6E, 0, 0x64, 0x61, 0x74, 0x61]),
      (289, [0x2E, 0x73, 0x79, 0x6D, 0x74, 0x61, 0x62, 0,
             0x2E, 0x73, 0x74, 0x72, 0x74, 0x61, 0x62, 0,
             0x2E, 0x73, 0x68, 0x73, 0x74, 0x72, 0x74, 0x61, 0x62]),
      (320, [1]), (324, [0x11, 0x01]), (329, [0x30]), (336, [4])]"

text \<open>The same file with section 2 (the string table) turned into a \<^verbatim>\<open>SHT_NOBITS\<close> section.\<close>

definition image_nobits :: "(int \<times> u8 list) list" where
  "image_nobits = (148, [8]) # image_syms"

text \<open>The same file with section 1 named by offset 9 (\<^verbatim>\<open>.strtab\<close>): four sections, none
  of them named \<^verbatim>\<open>.symtab\<close>.\<close>

definition image_nosymtab :: "(int \<times> u8 list) list" where
  "image_nosymtab = (104, [9]) # image_syms"

text \<open>The file with the sections, with section 1 (\<^verbatim>\<open>.symtab\<close>) turned into a \<^verbatim>\<open>SHT_NOBITS\<close>
  section; and with the offset of section 1 raised to \<open>0x800000E0\<close>.\<close>

definition image_symtab_nobits :: "(int \<times> u8 list) list" where
  "image_symtab_nobits = (108, [8]) # image_syms"

definition image_far :: "(int \<times> u8 list) list" where
  "image_far = (123, [0x80]) # image_syms"

text \<open>The file with 33 program headers, the one at index 32 now a \<^verbatim>\<open>PT_LOAD\<close> of 2 bytes
  from offset 164 to address 0; and the shared object with the file offset of its first
  \<^verbatim>\<open>PT_LOAD\<close> header raised to \<open>0x7FFFFFF0\<close>. The first is a file of 1108 bytes, the second of
  166 bytes.\<close>

definition image_overflow :: "(int \<times> u8 list) list" where
  "image_overflow = (1080, [164]) # (1092, [2]) # image_many"

definition image_outside :: "(int \<times> u8 list) list" where
  "image_outside = (56, [0xF0, 0xFF, 0xFF, 0x7F]) # image_dyn"

text \<open>The memories that hold these images at address \<open>0x10000\<close>.\<close>

abbreviation mem_dyn :: memory where
  "mem_dyn \<equiv> place 0x10000 image_dyn"

abbreviation mem_exec :: memory where
  "mem_exec \<equiv> place 0x10000 image_exec"

abbreviation mem_many :: memory where
  "mem_many \<equiv> place 0x10000 image_many"

abbreviation mem_syms :: memory where
  "mem_syms \<equiv> place 0x10000 image_syms"

abbreviation mem_nobits :: memory where
  "mem_nobits \<equiv> place 0x10000 image_nobits"

abbreviation mem_nosymtab :: memory where
  "mem_nosymtab \<equiv> place 0x10000 image_nosymtab"

abbreviation mem_symtab_nobits :: memory where
  "mem_symtab_nobits \<equiv> place 0x10000 image_symtab_nobits"



text \<open>The image with the far section offset, at address \<open>0x100000000\<close>.\<close>

abbreviation mem_far :: memory where
  "mem_far \<equiv> place 0x100000000 image_far"

section \<open>Loops in closed form\<close>

lemma upt_first: "i < n \<Longrightarrow> [i..<n] = i # [Suc i..<n]"
  by (simp add: upt_conv_Cons)

lemma LoadInto_loop_events:
  "snd (snd (LoadInto_loop m r b i (sa, stray, es))) =
     es @ map (\<lambda>k. copy_event m r b (Phdr m r (int k)))
            (filter (\<lambda>k. p_type (Phdr m r (int k)) = PT_LOAD) [i..<unat (e_phnum (Ehdr m r))])"
proof (induction m r b i "(sa, stray, es)" arbitrary: sa stray es rule: LoadInto_loop.induct)
  case (1 m r b i sa stray es)
  show ?case
  proof (cases "i < unat (e_phnum (Ehdr m r))")
    case False
    then show ?thesis by (simp add: LoadInto_loop.simps)
  next
    case True
    note lt = True
    show ?thesis
    proof (cases "p_type (Phdr m r (int i)) = PT_LOAD")
      case True
      from "1.hyps"(1)[OF lt True] lt True show ?thesis
        by (subst LoadInto_loop.simps) (simp add: upt_first copy_event_def GetSegmentPtr_def)
    next
      case False
      from "1.hyps"(2)[OF lt False] lt False show ?thesis
        by (subst LoadInto_loop.simps) (simp add: upt_first)
    qed
  qed
qed

lemma LoadInto_loop_stray:
  "fst (snd (LoadInto_loop m r b i (sa, stray, es))) =
     stray @ filter (\<lambda>k. p_type (Phdr m r (int k)) = PT_LOAD \<and> \<not> k < 32) [i..<unat (e_phnum (Ehdr m r))]"
proof (induction m r b i "(sa, stray, es)" arbitrary: sa stray es rule: LoadInto_loop.induct)
  case (1 m r b i sa stray es)
  show ?case
  proof (cases "i < unat (e_phnum (Ehdr m r))")
    case False
    then show ?thesis by (simp add: LoadInto_loop.simps)
  next
    case True
    note lt = True
    show ?thesis
    proof (cases "p_type (Phdr m r (int i)) = PT_LOAD")
      case True
      from "1.hyps"(1)[OF lt True] lt True show ?thesis
        by (subst LoadInto_loop.simps) (simp add: upt_first)
    next
      case False
      from "1.hyps"(2)[OF lt False] lt False show ?thesis
        by (subst LoadInto_loop.simps) (simp add: upt_first)
    qed
  qed
qed

lemma GetSectionByName_loop_none:
  "(\<And>k. i \<le> k \<Longrightarrow> k < uint (e_shnum (Ehdr m r)) \<Longrightarrow> \<not> name_matches m r name k)
    \<Longrightarrow> GetSectionByName_loop m r name i = - 1"
proof (induction m r name i rule: GetSectionByName_loop.induct)
  case (1 m r name i)
  show ?case
  proof (cases "i < uint (e_shnum (Ehdr m r))")
    case False
    then show ?thesis by (simp add: GetSectionByName_loop.simps)
  next
    case True
    from "1.prems"[of i] True have nm: "\<not> name_matches m r name i" by simp
    then have c: "\<not> (GetSectionName m r i \<noteq> nullptr \<and> strcmp m name (GetSectionName m r i) = 0)"
      by (simp add: name_matches_def)
    have "GetSectionByName_loop m r name (i + 1) = - 1"
      using "1.IH"[OF True c] "1.prems" by simp
    with True c show ?thesis
      by (subst GetSectionByName_loop.simps) auto
  qed
qed

lemma GetSectionByName_loop_first:
  "i \<le> k \<Longrightarrow> k < uint (e_shnum (Ehdr m r)) \<Longrightarrow> name_matches m r name k
    \<Longrightarrow> (\<And>j. i \<le> j \<Longrightarrow> j < k \<Longrightarrow> \<not> name_matches m r name j)
    \<Longrightarrow> GetSectionByName_loop m r name i = k"
proof (induction m r name i rule: GetSectionByName_loop.induct)
  case (1 m r name i)
  from "1.prems"(1,2) have lt: "i < uint (e_shnum (Ehdr m r))" by simp
  show ?case
  proof (cases "i = k")
    case True
    with "1.prems"(3) lt show ?thesis
      by (subst GetSectionByName_loop.simps) (simp add: name_matches_def)
  next
    case False
    with "1.prems"(1) have ik: "i < k" by simp
    from "1.prems"(4)[of i] ik
    have c: "\<not> (GetSectionName m r i \<noteq> nullptr \<and> strcmp m name (GetSectionName m r i) = 0)"
      by (simp add: name_matches_def)
    have "GetSectionByName_loop m r name (i + 1) = k"
      using "1.IH"[OF lt c] "1.prems" ik by simp
    with lt c show ?thesis
      by (subst GetSectionByName_loop.simps) auto
  qed
qed

lemma GetSectionByName_loop_result:
  "GetSectionByName_loop m r name i = - 1 \<or>
   (i \<le> GetSectionByName_loop m r name i \<and>
    GetSectionByName_loop m r name i < uint (e_shnum (Ehdr m r)) \<and>
    name_matches m r name (GetSectionByName_loop m r name i))"
proof (induction m r name i rule: GetSectionByName_loop.induct)
  case (1 m r name i)
  show ?case
  proof (cases "i < uint (e_shnum (Ehdr m r))")
    case False
    then show ?thesis by (simp add: GetSectionByName_loop.simps)
  next
    case True
    note lt = True
    show ?thesis
    proof (cases "GetSectionName m r i \<noteq> nullptr \<and> strcmp m name (GetSectionName m r i) = 0")
      case True
      with lt show ?thesis
        by (subst (1 2 3 4) GetSectionByName_loop.simps) (simp add: name_matches_def)
    next
      case False
      from "1.IH"[OF lt False] lt False show ?thesis
        by (subst (1 2 3 4) GetSectionByName_loop.simps) auto
    qed
  qed
qed

lemma GetSectionByName_loop_skipped:
  "i \<le> j \<Longrightarrow> j < uint (e_shnum (Ehdr m r)) \<Longrightarrow> name_matches m r name j
     \<Longrightarrow> i \<le> GetSectionByName_loop m r name i \<and> GetSectionByName_loop m r name i \<le> j"
proof (induction m r name i rule: GetSectionByName_loop.induct)
  case (1 m r name i)
  from "1.prems"(1,2) have lt: "i < uint (e_shnum (Ehdr m r))" by simp
  show ?case
  proof (cases "GetSectionName m r i \<noteq> nullptr \<and> strcmp m name (GetSectionName m r i) = 0")
    case True
    with lt "1.prems"(1) show ?thesis
      by (subst (1 2) GetSectionByName_loop.simps) simp
  next
    case False
    with "1.prems"(3) have "i \<noteq> j" by (auto simp: name_matches_def)
    with "1.prems"(1) have "i + 1 \<le> j" by simp
    from "1.IH"[OF lt False this "1.prems"(2,3)] lt False show ?thesis
      by (subst (1 2) GetSectionByName_loop.simps) simp
  qed
qed

lemma copy_bytes_Suc: "copy_bytes m p (Suc n) = m p # copy_bytes m (p + 1) n"
proof -
  have "[0..<Suc n] = 0 # map Suc [0..<n]"
    by (simp add: upt_conv_Cons map_Suc_upt del: upt_Suc)
  then show ?thesis
    by (simp add: copy_bytes_def comp_def add.assoc del: upt_Suc)
qed

lemma length_copy_bytes: "length (copy_bytes m p n) = n"
  by (simp add: copy_bytes_def)

lemma strcmp_zero_iff:
  "(\<And>c. c \<in> set name \<Longrightarrow> (of_char c :: u8) \<noteq> 0)
    \<Longrightarrow> (strcmp m name p = 0) = cstring_at m p name"
proof (induction name arbitrary: p)
  case Nil
  then show ?case by (simp add: cstring_at_def copy_bytes_def uint_0_iff)
next
  case (Cons c cs)
  have nz: "(of_char c :: u8) \<noteq> 0" using Cons.prems by simp
  have ih: "(strcmp m cs (p + 1) = 0) = cstring_at m (p + 1) cs"
    using Cons.IH[of "p + 1"] Cons.prems by simp
  have split: "cstring_at m p (c # cs) = (m p = of_char c \<and> cstring_at m (p + 1) cs)"
    by (auto simp: cstring_at_def copy_bytes_Suc add.assoc)
  show ?case
  proof (cases "of_char c = m p")
    case True
    with nz ih split show ?thesis by (auto simp: uint_0_iff)
  next
    case False
    then have "uint (of_char c :: u8) \<noteq> uint (m p)" by (simp add: word_uint_eq_iff)
    with False nz split show ?thesis by auto
  qed
qed

lemma LoadSymbols_loop_events:
  "snd (LoadSymbols_loop m symtab sb n i (h, es)) =
     es @ map (\<lambda>k. symbol_event sb (read_Sym m (symtab + int sizeof_Elf32_Sym * int k)))
            (filter (\<lambda>k. st_size (read_Sym m (symtab + int sizeof_Elf32_Sym * int k)) \<noteq> 0) [i..<n])"
proof (induction m symtab sb n i "(h, es)" arbitrary: h es rule: LoadSymbols_loop.induct)
  case (1 m symtab sb n i h es)
  show ?case
  proof (cases "i < n")
    case False
    then show ?thesis by (simp add: LoadSymbols_loop.simps)
  next
    case True
    note lt = True
    show ?thesis
    proof (cases "st_size (read_Sym m (symtab + int sizeof_Elf32_Sym * int i)) = 0")
      case True
      from "1.hyps"(1)[OF lt True] lt True show ?thesis
        by (subst LoadSymbols_loop.simps) (simp add: upt_first)
    next
      case False
      from "1.hyps"(2)[OF lt False] lt False show ?thesis
        by (subst LoadSymbols_loop.simps) (simp add: upt_first symbol_event_def)
    qed
  qed
qed

lemma LoadSymbols_loop_flag:
  "fst (LoadSymbols_loop m symtab sb n i (h, es)) =
     (h \<or> filter (\<lambda>k. st_size (read_Sym m (symtab + int sizeof_Elf32_Sym * int k)) \<noteq> 0) [i..<n] \<noteq> [])"
proof (induction m symtab sb n i "(h, es)" arbitrary: h es rule: LoadSymbols_loop.induct)
  case (1 m symtab sb n i h es)
  show ?case
  proof (cases "i < n")
    case False
    then show ?thesis by (simp add: LoadSymbols_loop.simps)
  next
    case True
    note lt = True
    show ?thesis
    proof (cases "st_size (read_Sym m (symtab + int sizeof_Elf32_Sym * int i)) = 0")
      case True
      from "1.hyps"(1)[OF lt True] lt True show ?thesis
        by (subst LoadSymbols_loop.simps) (simp add: upt_first)
    next
      case False
      from "1.hyps"(2)[OF lt False] lt False show ?thesis
        by (subst LoadSymbols_loop.simps) (simp add: upt_first)
    qed
  qed
qed

lemma LoadSymbols_absent:
  "GetSectionByName m r ''.symtab'' 0 = - 1 \<Longrightarrow> LoadSymbols m r es = (False, es)"
  by (simp add: LoadSymbols_def)

lemma LoadSymbols_present_events:
  assumes "GetSectionByName m r ''.symtab'' 0 = sec" and "sec \<noteq> - 1"
  shows "snd (LoadSymbols m r es) =
     es @ map (symbol_event (GetSectionDataPtr m r (sint (sh_link (Shdr m r sec)))))
            (filter (\<lambda>s. st_size s \<noteq> 0) (symbol_entries m r sec))"
  using assms
  by (simp add: LoadSymbols_def Let_def LoadSymbols_loop_events symbol_entries_def
      filter_map comp_def)

lemma LoadSymbols_present_flag:
  assumes "GetSectionByName m r ''.symtab'' 0 = sec" and "sec \<noteq> - 1"
  shows "fst (LoadSymbols m r es) = (filter (\<lambda>s. st_size s \<noteq> 0) (symbol_entries m r sec) \<noteq> [])"
  using assms
  by (simp add: LoadSymbols_def Let_def LoadSymbols_loop_flag symbol_entries_def
      filter_map comp_def)

lemma LoadSymbols_only_symbols:
  "\<exists>syms. snd (LoadSymbols m r es) = es @ syms \<and> list_all is_SymbolsAdd syms"
proof (cases "GetSectionByName m r ''.symtab'' 0 = - 1")
  case True
  then show ?thesis by (simp add: LoadSymbols_absent)
next
  case False
  have "list_all is_SymbolsAdd (map (symbol_event sb) xs)" for sb xs
    by (simp add: list_all_iff symbol_event_def)
  with LoadSymbols_present_events[OF refl False, of es] show ?thesis by blast
qed

lemma symtab_absent_iff:
  "(GetSectionByName m r ''.symtab'' 0 = - 1) =
     (\<forall>k. 0 \<le> k \<and> k < GetNumSections m r \<longrightarrow> \<not> name_matches m r ''.symtab'' k)"
proof
  assume a: "GetSectionByName m r ''.symtab'' 0 = - 1"
  show "\<forall>k. 0 \<le> k \<and> k < GetNumSections m r \<longrightarrow> \<not> name_matches m r ''.symtab'' k"
  proof (intro allI impI notI)
    fix k assume "0 \<le> k \<and> k < GetNumSections m r" and "name_matches m r ''.symtab'' k"
    then have "0 \<le> GetSectionByName_loop m r ''.symtab'' 0"
      using GetSectionByName_loop_skipped[of 0 k m r "''.symtab''"]
      by (simp add: GetNumSections_def)
    with a show False by (simp add: GetSectionByName_def)
  qed
next
  assume "\<forall>k. 0 \<le> k \<and> k < GetNumSections m r \<longrightarrow> \<not> name_matches m r ''.symtab'' k"
  then show "GetSectionByName m r ''.symtab'' 0 = - 1"
    unfolding GetSectionByName_def
    by (intro GetSectionByName_loop_none) (simp add: GetNumSections_def)
qed

lemma LoadInto_fields:
  "returned (LoadInto m r v es) = True"
  "relocate (reader (LoadInto m r v es)) = Some (e_type (Ehdr m r) \<noteq> ET_EXEC)"
  "entryPoint (reader (LoadInto m r v es)) =
     (if e_type (Ehdr m r) \<noteq> ET_EXEC then entryPoint r + v else entryPoint r)"
  "base (reader (LoadInto m r v es)) = base r"
  "header (reader (LoadInto m r v es)) = header r"
  "segments (reader (LoadInto m r v es)) = segments r"
  "sections (reader (LoadInto m r v es)) = sections r"
  by (simp_all add: LoadInto_def Let_def)

lemma Ehdr_LoadInto: "Ehdr m (reader (LoadInto m r v es)) = Ehdr m r"
  by (simp add: Ehdr_def LoadInto_fields)

lemma Ehdr_cong: "header r' = header r \<Longrightarrow> Ehdr m r' = Ehdr m r"
  by (simp add: Ehdr_def)

lemma Phdr_cong: "segments r' = segments r \<Longrightarrow> Phdr m r' k = Phdr m r k"
  by (simp add: Phdr_def)

lemma GetPtr_cong: "base r' = base r \<Longrightarrow> GetPtr r' off = GetPtr r off"
  by (simp add: GetPtr_def)

lemma copy_event_cong: "base r' = base r \<Longrightarrow> copy_event m r' b p = copy_event m r b p"
  by (simp add: copy_event_def GetPtr_def)

lemma LoadInto_events:
  "events (LoadInto m r v es) =
     es @ map (copy_event m r (if e_type (Ehdr m r) \<noteq> ET_EXEC then v else 0))
            (filter (\<lambda>p. p_type p = PT_LOAD) (program_headers m r))"
proof -
  define r' where "r' = reader (LoadInto m r v es)"
  have f: "header r' = header r" "segments r' = segments r" "base r' = base r"
    by (simp_all add: r'_def LoadInto_fields)
  have "events (LoadInto m r v es) =
      snd (snd (LoadInto_loop m r' (if e_type (Ehdr m r) \<noteq> ET_EXEC then v else 0) 0
        (replicate 32 None, [], es)))"
    by (simp add: LoadInto_def Let_def r'_def)
  also have "\<dots> = es @ map (copy_event m r (if e_type (Ehdr m r) \<noteq> ET_EXEC then v else 0))
            (filter (\<lambda>p. p_type p = PT_LOAD) (program_headers m r))"
    by (simp only: LoadInto_loop_events Ehdr_cong[OF f(1)] Phdr_cong[OF f(2)] copy_event_cong[OF f(3)])
       (simp add: program_headers_def filter_map comp_def)
  finally show ?thesis .
qed

lemma LoadInto_stray:
  "stray_stores (LoadInto m r v es) =
     filter (\<lambda>k. p_type (Phdr m r (int k)) = PT_LOAD \<and> \<not> k < 32) [0..<unat (e_phnum (Ehdr m r))]"
proof -
  define r' where "r' = reader (LoadInto m r v es)"
  have f: "header r' = header r" "segments r' = segments r"
    by (simp_all add: r'_def LoadInto_fields)
  have "stray_stores (LoadInto m r v es) =
      fst (snd (LoadInto_loop m r' (if e_type (Ehdr m r) \<noteq> ET_EXEC then v else 0) 0
        (replicate 32 None, [], es)))"
    by (simp add: LoadInto_def Let_def r'_def)
  also have "\<dots> = filter (\<lambda>k. p_type (Phdr m r (int k)) = PT_LOAD \<and> \<not> k < 32) [0..<unat (e_phnum (Ehdr m r))]"
    by (simp only: LoadInto_loop_stray Ehdr_cong[OF f(1)] Phdr_cong[OF f(2)]) simp
  finally show ?thesis .
qed

lemma ctor_fields:
  "base (fst (ElfReader_ctor m ptr es)) = ptr"
  "header (fst (ElfReader_ctor m ptr es)) = ptr"
  "segments (fst (ElfReader_ctor m ptr es)) = ptr + uint (e_phoff (read_Ehdr m ptr))"
  "sections (fst (ElfReader_ctor m ptr es)) = ptr + uint (e_shoff (read_Ehdr m ptr))"
  "relocate (fst (ElfReader_ctor m ptr es)) = None"
  "entryPoint (fst (ElfReader_ctor m ptr es)) = e_entry (read_Ehdr m ptr)"
  by (simp_all add: ElfReader_ctor_def Let_def)

lemma ctor_reader_independent:
  "fst (ElfReader_ctor m ptr es) = fst (ElfReader_ctor m ptr es')"
  by (simp add: ElfReader_ctor_def Let_def)

lemma ctor_events:
  "snd (ElfReader_ctor m ptr es) = snd (LoadSymbols m (fst (ElfReader_ctor m ptr es)) es)"
  by (simp add: ElfReader_ctor_def Let_def)

lemma LoadInto_times_entry:
  "e_type (Ehdr m r) \<noteq> ET_EXEC \<Longrightarrow>
     entryPoint (fst (LoadInto_times m v n (r, es))) = entryPoint r + of_nat n * v"
proof (induction n arbitrary: r es)
  case 0
  then show ?case by simp
next
  case (Suc n)
  have "e_type (Ehdr m (reader (LoadInto m r v es))) \<noteq> ET_EXEC"
    using Suc.prems by (simp add: Ehdr_LoadInto)
  from Suc.IH[OF this] Suc.prems show ?case
    by (simp add: LoadInto_fields algebra_simps)
qed

lemma Ehdr_ctor: "Ehdr m (fst (ElfReader_ctor m ptr es)) = read_Ehdr m ptr"
  by (simp add: Ehdr_def ctor_fields)

lemma LoadInto_loop_length:
  "length (fst (LoadInto_loop m r b i (sa, stray, es))) = length sa"
proof (induction m r b i "(sa, stray, es)" arbitrary: sa stray es rule: LoadInto_loop.induct)
  case (1 m r b i sa stray es)
  show ?case
  proof (cases "i < unat (e_phnum (Ehdr m r))")
    case False
    then show ?thesis by (simp add: LoadInto_loop.simps)
  next
    case True
    note lt = True
    show ?thesis
    proof (cases "p_type (Phdr m r (int i)) = PT_LOAD")
      case True
      from "1.hyps"(1)[OF lt True] lt True show ?thesis
        by (subst LoadInto_loop.simps) simp
    next
      case False
      from "1.hyps"(2)[OF lt False] lt False show ?thesis
        by (subst LoadInto_loop.simps) simp
    qed
  qed
qed

lemma LoadInto_array_length: "length (segment_addr (LoadInto m r v es)) = 32"
  by (simp add: LoadInto_def Let_def LoadInto_loop_length)

lemma LoadSymbols_appends:
  "snd (LoadSymbols m r es) = es @ snd (LoadSymbols m r [])"
proof (cases "GetSectionByName m r ''.symtab'' 0 = - 1")
  case True
  then show ?thesis by (simp add: LoadSymbols_absent)
next
  case False
  show ?thesis
    by (simp add: LoadSymbols_present_events[OF refl False])
qed

lemma LoadInto_only_copies:
  "\<exists>copies. events (LoadInto m r v es) = es @ copies \<and> list_all is_MemCopy copies"
proof -
  have "list_all is_MemCopy (map (copy_event m r b) ps)" for b ps
    by (simp add: list_all_iff copy_event_def)
  then show ?thesis
    unfolding LoadInto_events by blast
qed

lemma symtab_first_match:
  assumes "0 \<le> k" "k < GetNumSections m r" "name_matches m r ''.symtab'' k"
  shows "0 \<le> GetSectionByName m r ''.symtab'' 0 \<and>
         GetSectionByName m r ''.symtab'' 0 < GetNumSections m r \<and>
         name_matches m r ''.symtab'' (GetSectionByName m r ''.symtab'' 0) \<and>
         GetSectionByName m r ''.symtab'' 0 \<noteq> - 1"
proof -
  from assms have s: "0 \<le> GetSectionByName_loop m r ''.symtab'' 0"
    using GetSectionByName_loop_skipped[of 0 k m r "''.symtab''"]
    by (simp add: GetNumSections_def)
  with GetSectionByName_loop_result[of m r "''.symtab''" 0] show ?thesis
    by (auto simp: GetSectionByName_def GetNumSections_def)
qed

section \<open>The checked runs\<close>

lemma LoadSymbols_loop_checked_eq:
  "LoadSymbols_loop_checked m symtab sb n i (h, es) =
     (if symtab = nullptr \<and> i < n then Inl NullDereference
      else Inr (LoadSymbols_loop m symtab sb n i (h, es)))"
proof (induction m symtab sb n i "(h, es)" arbitrary: h es rule: LoadSymbols_loop_checked.induct)
  case (1 m symtab sb n i h es)
  show ?case
  proof (cases "i < n")
    case False
    then show ?thesis
      by (simp add: LoadSymbols_loop_checked.simps LoadSymbols_loop.simps)
  next
    case True
    note lt = True
    show ?thesis
    proof (cases "symtab = nullptr")
      case True
      with lt show ?thesis by (simp add: LoadSymbols_loop_checked.simps)
    next
      case False
      note nn = False
      show ?thesis
      proof (cases "st_size (read_Sym m (symtab + int sizeof_Elf32_Sym * int i)) = 0")
        case True
        from "1.hyps"(1)[OF lt nn True] lt nn True show ?thesis
          by (subst LoadSymbols_loop_checked.simps, subst LoadSymbols_loop.simps) simp
      next
        case False
        from "1.hyps"(2)[OF lt nn False] lt nn False show ?thesis
          by (subst LoadSymbols_loop_checked.simps, subst LoadSymbols_loop.simps) simp
      qed
    qed
  qed
qed

lemma LoadSymbols_checked_absent:
  "GetSectionByName m r ''.symtab'' 0 = - 1 \<Longrightarrow> LoadSymbols_checked m r es = Inr (False, es)"
  by (simp add: LoadSymbols_checked_def)

lemma LoadSymbols_checked_present:
  assumes "GetSectionByName m r ''.symtab'' 0 = sec" and "sec \<noteq> - 1"
  shows "LoadSymbols_checked m r es =
     (if GetSectionDataPtr m r sec = nullptr \<and>
         0 < unat (sh_size (Shdr m r sec)) div sizeof_Elf32_Sym
      then Inl NullDereference else Inr (LoadSymbols m r es))"
  using assms
  by (simp add: LoadSymbols_checked_def LoadSymbols_def Let_def LoadSymbols_loop_checked_eq)

lemma sint_32_cases:
  "sint (w :: u32) = (if uint w < 2 ^ 31 then uint w else uint w - 2 ^ 32)"
proof -
  have b: "uint w < 2 ^ 32" "0 \<le> uint w" using uint_bounded[of w] by simp_all
  have t: "take_bit 32 (uint w) = uint w"
    using b by (simp add: take_bit_int_eq_self)
  have d: "uint w div 2 ^ 31 = (if uint w < 2 ^ 31 then 0 else 1)"
    using b by (auto intro!: int_div_pos_eq[symmetric])
  have "sint w = take_bit 32 (uint w) - 2 ^ 32 * of_bool (bit (uint w) 31)"
    by (simp add: sint_uint signed_take_bit_eq_take_bit_minus)
  also have "\<dots> = (if uint w < 2 ^ 31 then uint w else uint w - 2 ^ 32)"
    using d by (simp add: t bit_iff_odd_drop_bit drop_bit_eq_div)
  finally show ?thesis .
qed










text \<open>
  What \<open>LoadSymbols_checked\<close> gives on every input: nothing reported and false without a
  section named \<^verbatim>\<open>.symtab\<close>; a dereference of \<^verbatim>\<open>nullptr\<close> when that section has entries and no
  data pointer; and otherwise the entries of non-zero size reported in order, each with
  address \<^verbatim>\<open>st_value\<close>, name \<^verbatim>\<open>stringBase + st_name\<close>, size \<^verbatim>\<open>st_size\<close> and type
  \<^verbatim>\<open>st_info & 0xF\<close>, and true exactly when there is one.
\<close>

lemma LoadSymbols_checked_reports:
  "((\<forall>k. 0 \<le> k \<and> k < GetNumSections m r \<longrightarrow> \<not> name_matches m r ''.symtab'' k) \<longrightarrow>
      LoadSymbols_checked m r es = Inr (False, es)) \<and>
   ((\<exists>k. 0 \<le> k \<and> k < GetNumSections m r \<and> name_matches m r ''.symtab'' k) \<longrightarrow>
      0 \<le> GetSectionByName m r ''.symtab'' 0 \<and>
      GetSectionByName m r ''.symtab'' 0 < GetNumSections m r \<and>
      name_matches m r ''.symtab'' (GetSectionByName m r ''.symtab'' 0) \<and>
      (GetSectionDataPtr m r (GetSectionByName m r ''.symtab'' 0) = nullptr \<and>
       0 < unat (sh_size (Shdr m r (GetSectionByName m r ''.symtab'' 0))) div sizeof_Elf32_Sym \<longrightarrow>
         LoadSymbols_checked m r es = Inl NullDereference) \<and>
      (GetSectionDataPtr m r (GetSectionByName m r ''.symtab'' 0) \<noteq> nullptr \<or>
       unat (sh_size (Shdr m r (GetSectionByName m r ''.symtab'' 0))) div sizeof_Elf32_Sym = 0 \<longrightarrow>
         LoadSymbols_checked m r es =
           Inr (filter (\<lambda>s. st_size s \<noteq> 0)
                  (symbol_entries m r (GetSectionByName m r ''.symtab'' 0)) \<noteq> [],
                es @ map (symbol_event (GetSectionDataPtr m r
                            (sint (sh_link (Shdr m r (GetSectionByName m r ''.symtab'' 0))))))
                       (filter (\<lambda>s. st_size s \<noteq> 0)
                          (symbol_entries m r (GetSectionByName m r ''.symtab'' 0))))))"
proof (intro conjI impI)
  assume "\<forall>k. 0 \<le> k \<and> k < GetNumSections m r \<longrightarrow> \<not> name_matches m r ''.symtab'' k"
  then have "GetSectionByName m r ''.symtab'' 0 = - 1"
    by (simp add: symtab_absent_iff)
  then show "LoadSymbols_checked m r es = Inr (False, es)"
    by (rule LoadSymbols_checked_absent)
next
  assume "\<exists>k. 0 \<le> k \<and> k < GetNumSections m r \<and> name_matches m r ''.symtab'' k"
  then obtain k where k: "0 \<le> k" "k < GetNumSections m r" "name_matches m r ''.symtab'' k"
    by blast
  note f = symtab_first_match[OF k]
  from f show "0 \<le> GetSectionByName m r ''.symtab'' 0" by simp
  from f show "GetSectionByName m r ''.symtab'' 0 < GetNumSections m r" by simp
  from f show "name_matches m r ''.symtab'' (GetSectionByName m r ''.symtab'' 0)" by simp
  from f have ne: "GetSectionByName m r ''.symtab'' 0 \<noteq> - 1" by simp
  note c = LoadSymbols_checked_present[OF refl ne, of es]
  { assume "GetSectionDataPtr m r (GetSectionByName m r ''.symtab'' 0) = nullptr \<and>
       0 < unat (sh_size (Shdr m r (GetSectionByName m r ''.symtab'' 0))) div sizeof_Elf32_Sym"
    then show "LoadSymbols_checked m r es = Inl NullDereference"
      by (simp add: c) }
  { assume "GetSectionDataPtr m r (GetSectionByName m r ''.symtab'' 0) \<noteq> nullptr \<or>
       unat (sh_size (Shdr m r (GetSectionByName m r ''.symtab'' 0))) div sizeof_Elf32_Sym = 0"
    then have "LoadSymbols_checked m r es = Inr (LoadSymbols m r es)"
      by (auto simp: c)
    moreover have "LoadSymbols m r es =
           (filter (\<lambda>s. st_size s \<noteq> 0)
                  (symbol_entries m r (GetSectionByName m r ''.symtab'' 0)) \<noteq> [],
                es @ map (symbol_event (GetSectionDataPtr m r
                            (sint (sh_link (Shdr m r (GetSectionByName m r ''.symtab'' 0))))))
                       (filter (\<lambda>s. st_size s \<noteq> 0)
                          (symbol_entries m r (GetSectionByName m r ''.symtab'' 0))))"
      by (rule prod_eqI)
         (simp_all add: LoadSymbols_present_flag[OF refl ne] LoadSymbols_present_events[OF refl ne])
    ultimately show "LoadSymbols_checked m r es =
           Inr (filter (\<lambda>s. st_size s \<noteq> 0)
                  (symbol_entries m r (GetSectionByName m r ''.symtab'' 0)) \<noteq> [],
                es @ map (symbol_event (GetSectionDataPtr m r
                            (sint (sh_link (Shdr m r (GetSectionByName m r ''.symtab'' 0))))))
                       (filter (\<lambda>s. st_size s \<noteq> 0)
                          (symbol_entries m r (GetSectionByName m r ''.symtab'' 0))))"
      by simp }
qed

section \<open>Evaluating the example images\<close>

lemma Ehdr_fields:
  "e_type (read_Ehdr m p) = read_u16 m (p + 16)"
  "e_entry (read_Ehdr m p) = read_u32 m (p + 24)"
  "e_phoff (read_Ehdr m p) = read_u32 m (p + 28)"
  "e_shoff (read_Ehdr m p) = read_u32 m (p + 32)"
  "e_phnum (read_Ehdr m p) = read_u16 m (p + 44)"
  "e_shnum (read_Ehdr m p) = read_u16 m (p + 48)"
  "e_shstrndx (read_Ehdr m p) = read_u16 m (p + 50)"
  by (simp_all add: read_Ehdr_def)

lemma Shdr_fields:
  "sh_name (read_Shdr m p) = read_u32 m p"
  "sh_type (read_Shdr m p) = read_u32 m (p + 4)"
  "sh_offset (read_Shdr m p) = read_u32 m (p + 16)"
  "sh_size (read_Shdr m p) = read_u32 m (p + 20)"
  "sh_link (read_Shdr m p) = read_u32 m (p + 24)"
  by (simp_all add: read_Shdr_def)

lemma Phdr_fields:
  "p_type (read_Phdr m p) = read_u32 m p"
  "p_offset (read_Phdr m p) = read_u32 m (p + 4)"
  "p_vaddr (read_Phdr m p) = read_u32 m (p + 8)"
  "p_filesz (read_Phdr m p) = read_u32 m (p + 16)"
  by (simp_all add: read_Phdr_def)

lemma Sym_fields:
  "st_name (read_Sym m p) = read_u32 m p"
  "st_value (read_Sym m p) = read_u32 m (p + 4)"
  "st_size (read_Sym m p) = read_u32 m (p + 8)"
  "st_info (read_Sym m p) = read_u8 m (p + 12)"
  by (simp_all add: read_Sym_def)

lemmas field_reads = Ehdr_fields Shdr_fields Phdr_fields Sym_fields
  read_u8_def read_u16_def read_u32_def

lemmas reader_defs = Ehdr_def Shdr_def Phdr_def GetPtr_def GetSectionDataPtr_def
  GetSegmentPtr_def GetSectionName_def GetNumSections_def GetNumSegments_def nullptr_def
  sizeof_Elf32_Shdr_def sizeof_Elf32_Phdr_def sizeof_Elf32_Sym_def
  SHT_NULL_def SHT_NOBITS_def PT_LOAD_def ET_EXEC_def


lemma place_read: "place b chunks a = chunk_byte chunks (a - b)"
  by (simp add: place_def)

lemma image_dyn_read:
  "chunk_byte image_dyn x = chunk_byte
     [(16, [3]), (25, [1]), (28, [52]), (44, [3]),
      (52, [1]), (56, [160]), (61, [0x10]), (68, [4]),
      (84, [4]),
      (116, [1]), (120, [164]), (125, [0x20]), (132, [2]),
      (160, [0xDE, 0xAD, 0xBE, 0xEF, 1, 2])] x"
  by (simp only: image_dyn_def)

lemma image_exec_read: "chunk_byte image_exec x = chunk_byte ((16, [2]) # image_dyn) x"
  by (simp only: image_exec_def)

lemma image_many_read:
  "chunk_byte image_many x = chunk_byte ((44, [33]) # (1076, [1]) # image_dyn) x"
  by (simp only: image_many_def)

lemmas image_reads = place_read image_dyn_read image_exec_read image_many_read

lemma dyn_reader:
  "fst (ElfReader_ctor mem_dyn 0x10000 es) =
     \<lparr>base = 0x10000, header = 0x10000, segments = 0x10034, sections = 0x10000,
      relocate = None, entryPoint = 0x100\<rparr>"
  by (simp add: ElfReader_ctor_def Let_def field_reads image_reads)

lemma many_reader:
  "fst (ElfReader_ctor mem_many 0x10000 es) =
     \<lparr>base = 0x10000, header = 0x10000, segments = 0x10034, sections = 0x10000,
      relocate = None, entryPoint = 0x100\<rparr>"
  by (simp add: ElfReader_ctor_def Let_def field_reads image_reads)


lemma image_syms_read:
  "chunk_byte image_syms x = chunk_byte
     [(16, [2]), (28, [0x40, 0x01]), (32, [64]), (44, [1]), (48, [4]), (50, [3]),
      (104, [1]), (108, [2]), (120, [224]), (124, [48]), (128, [2]),
      (144, [9]), (148, [3]), (160, [0x10, 0x01]), (164, [10]),
      (184, [17]), (188, [3]), (200, [0x20, 0x01]), (204, [27]),
      (240, [1]), (245, [0x10]), (248, [8]), (252, [0x12]),
      (256, [6]), (261, [0x20]), (264, [4]), (268, [0x11]),
      (273, [0x6D, 0x61, 0x69, 0x6E, 0, 0x64, 0x61, 0x74, 0x61]),
      (289, [0x2E, 0x73, 0x79, 0x6D, 0x74, 0x61, 0x62, 0,
             0x2E, 0x73, 0x74, 0x72, 0x74, 0x61, 0x62, 0,
             0x2E, 0x73, 0x68, 0x73, 0x74, 0x72, 0x74, 0x61, 0x62]),
      (320, [1]), (324, [0x11, 0x01]), (329, [0x30]), (336, [4])] x"
  by (simp only: image_syms_def)

lemma image_nobits_read: "chunk_byte image_nobits x = chunk_byte ((148, [8]) # image_syms) x"
  by (simp only: image_nobits_def)

lemmas syms_reads = place_read image_syms_read image_nobits_read

lemma syms_reader:
  "fst (ElfReader_ctor mem_syms 0x10000 es) =
     \<lparr>base = 0x10000, header = 0x10000, segments = 0x10140, sections = 0x10040,
      relocate = None, entryPoint = 0\<rparr>"
  by (simp add: ElfReader_ctor_def Let_def field_reads syms_reads)

lemma nobits_reader:
  "fst (ElfReader_ctor mem_nobits 0x10000 es) =
     \<lparr>base = 0x10000, header = 0x10000, segments = 0x10140, sections = 0x10040,
      relocate = None, entryPoint = 0\<rparr>"
  by (simp add: ElfReader_ctor_def Let_def field_reads syms_reads)

lemma syms_shnum:
  "uint (e_shnum (Ehdr mem_syms
     \<lparr>base = 0x10000, header = 0x10000, segments = 0x10140, sections = 0x10040,
      relocate = None, entryPoint = 0\<rparr>)) = 4"
  by (simp add: reader_defs field_reads syms_reads)

lemma syms_names:
  "GetSectionName mem_syms
     \<lparr>base = 0x10000, header = 0x10000, segments = 0x10140, sections = 0x10040,
      relocate = None, entryPoint = 0\<rparr> 0 = 0"
  "GetSectionName mem_syms
     \<lparr>base = 0x10000, header = 0x10000, segments = 0x10140, sections = 0x10040,
      relocate = None, entryPoint = 0\<rparr> 1 = 0x10121"
  "GetSectionName mem_syms
     \<lparr>base = 0x10000, header = 0x10000, segments = 0x10140, sections = 0x10040,
      relocate = None, entryPoint = 0\<rparr> 2 = 0x10129"
  "GetSectionName mem_syms
     \<lparr>base = 0x10000, header = 0x10000, segments = 0x10140, sections = 0x10040,
      relocate = None, entryPoint = 0\<rparr> 3 = 0x10131"
  by (simp_all add: reader_defs field_reads syms_reads Let_def)

lemma syms_strcmp:
  "strcmp mem_syms ''.symtab'' 0x10121 = 0"
  "strcmp mem_syms ''.strtab'' 0x10121 \<noteq> 0"
  "strcmp mem_syms ''.strtab'' 0x10129 = 0"
  "strcmp mem_syms ''.bss'' 0x10121 \<noteq> 0"
  "strcmp mem_syms ''.bss'' 0x10129 \<noteq> 0"
  "strcmp mem_syms ''.bss'' 0x10131 \<noteq> 0"
  by (simp_all add: syms_reads)

lemma syms_symtab_index:
  "GetSectionByName mem_syms
     \<lparr>base = 0x10000, header = 0x10000, segments = 0x10140, sections = 0x10040,
      relocate = None, entryPoint = 0\<rparr> ''.symtab'' 0 = 1"
  by (simp add: GetSectionByName_def GetSectionByName_loop.simps syms_shnum syms_names
      syms_strcmp nullptr_def del: strcmp.simps split del: if_split)

lemma syms_symtab_section:
  "sint (sh_link (Shdr mem_syms
     \<lparr>base = 0x10000, header = 0x10000, segments = 0x10140, sections = 0x10040,
      relocate = None, entryPoint = 0\<rparr> 1)) = 2"
  "unat (sh_size (Shdr mem_syms
     \<lparr>base = 0x10000, header = 0x10000, segments = 0x10140, sections = 0x10040,
      relocate = None, entryPoint = 0\<rparr> 1)) = 48"
  "GetSectionDataPtr mem_syms
     \<lparr>base = 0x10000, header = 0x10000, segments = 0x10140, sections = 0x10040,
      relocate = None, entryPoint = 0\<rparr> 1 = 0x100E0"
  "GetSectionDataPtr mem_syms
     \<lparr>base = 0x10000, header = 0x10000, segments = 0x10140, sections = 0x10040,
      relocate = None, entryPoint = 0\<rparr> 2 = 0x10110"
  by (simp_all add: reader_defs field_reads syms_reads)

lemma syms_symbols:
  "map (symbol_event 0x10110) (filter (\<lambda>s. st_size s \<noteq> 0)
     (symbol_entries mem_syms
        \<lparr>base = 0x10000, header = 0x10000, segments = 0x10140, sections = 0x10040,
         relocate = None, entryPoint = 0\<rparr> 1)) =
   [SymbolsAdd 0x1000 0x10111 8 2, SymbolsAdd 0x2000 0x10116 4 1]"
  by (simp add: symbol_entries_def syms_symtab_section sizeof_Elf32_Sym_def upt_rec
      symbol_event_def field_reads syms_reads)

lemma syms_LoadSymbols:
  "LoadSymbols mem_syms
     \<lparr>base = 0x10000, header = 0x10000, segments = 0x10140, sections = 0x10040,
      relocate = None, entryPoint = 0\<rparr> es =
   (True, es @ [SymbolsAdd 0x1000 0x10111 8 2, SymbolsAdd 0x2000 0x10116 4 1])"
proof (rule prod_eqI)
  show "fst (LoadSymbols mem_syms
     \<lparr>base = 0x10000, header = 0x10000, segments = 0x10140, sections = 0x10040,
      relocate = None, entryPoint = 0\<rparr> es) =
     fst (True, es @ [SymbolsAdd 0x1000 0x10111 8 2, SymbolsAdd 0x2000 0x10116 4 1])"
    using syms_symbols
    by (simp add: LoadSymbols_present_flag[OF syms_symtab_index] syms_symtab_section)
       (auto dest: arg_cong[where f = length])
  show "snd (LoadSymbols mem_syms
     \<lparr>base = 0x10000, header = 0x10000, segments = 0x10140, sections = 0x10040,
      relocate = None, entryPoint = 0\<rparr> es) =
     snd (True, es @ [SymbolsAdd 0x1000 0x10111 8 2, SymbolsAdd 0x2000 0x10116 4 1])"
    by (simp add: LoadSymbols_present_events[OF syms_symtab_index] syms_symtab_section
        syms_symbols)
qed

lemma image_nosymtab_read: "chunk_byte image_nosymtab x = chunk_byte ((104, [9]) # image_syms) x"
  by (simp only: image_nosymtab_def)

lemmas more_reads = syms_reads image_nosymtab_read

lemma nosymtab_reader:
  "fst (ElfReader_ctor mem_nosymtab 0x10000 es) = 
     \<lparr>base = 0x10000, header = 0x10000, segments = 0x10140, sections = 0x10040,
      relocate = None, entryPoint = 0\<rparr>"
  by (simp add: ElfReader_ctor_def Let_def field_reads more_reads)

lemma nosymtab_shnum:
  "GetNumSections mem_nosymtab 
     \<lparr>base = 0x10000, header = 0x10000, segments = 0x10140, sections = 0x10040,
      relocate = None, entryPoint = 0\<rparr> = 4"
  by (simp add: reader_defs field_reads more_reads)

lemma nosymtab_names:
  "GetSectionName mem_nosymtab 
     \<lparr>base = 0x10000, header = 0x10000, segments = 0x10140, sections = 0x10040,
      relocate = None, entryPoint = 0\<rparr> 0 = 0"
  "GetSectionName mem_nosymtab 
     \<lparr>base = 0x10000, header = 0x10000, segments = 0x10140, sections = 0x10040,
      relocate = None, entryPoint = 0\<rparr> 1 = 0x10129"
  "GetSectionName mem_nosymtab 
     \<lparr>base = 0x10000, header = 0x10000, segments = 0x10140, sections = 0x10040,
      relocate = None, entryPoint = 0\<rparr> 2 = 0x10129"
  "GetSectionName mem_nosymtab 
     \<lparr>base = 0x10000, header = 0x10000, segments = 0x10140, sections = 0x10040,
      relocate = None, entryPoint = 0\<rparr> 3 = 0x10131"
  by (simp_all add: reader_defs field_reads more_reads Let_def)

lemma nosymtab_strcmp:
  "strcmp mem_nosymtab ''.symtab'' 0x10129 \<noteq> 0"
  "strcmp mem_nosymtab ''.symtab'' 0x10131 \<noteq> 0"
  by (simp_all add: more_reads)

lemma nosymtab_no_match:
  "0 \<le> k \<and> k < 4 \<Longrightarrow> \<not> name_matches mem_nosymtab 
     \<lparr>base = 0x10000, header = 0x10000, segments = 0x10140, sections = 0x10040,
      relocate = None, entryPoint = 0\<rparr> ''.symtab'' k"
proof -
  assume "0 \<le> k \<and> k < 4"
  then have "k = 0 \<or> k = 1 \<or> k = 2 \<or> k = 3" by arith
  then show ?thesis
    by (auto simp: name_matches_def nosymtab_names nosymtab_strcmp nullptr_def
        simp del: strcmp.simps)
qed

lemma syms_more_strcmp:
  "strcmp mem_syms ''.symtab'' 0x10129 \<noteq> 0"
  "strcmp mem_syms ''.symtab'' 0x10131 \<noteq> 0"
  by (simp_all add: more_reads)

lemma syms_matches:
  "name_matches mem_syms 
     \<lparr>base = 0x10000, header = 0x10000, segments = 0x10140, sections = 0x10040,
      relocate = None, entryPoint = 0\<rparr> ''.symtab'' 1"
  "name_matches mem_syms 
     \<lparr>base = 0x10000, header = 0x10000, segments = 0x10140, sections = 0x10040,
      relocate = None, entryPoint = 0\<rparr> ''.strtab'' 2"
  "\<not> name_matches mem_syms 
     \<lparr>base = 0x10000, header = 0x10000, segments = 0x10140, sections = 0x10040,
      relocate = None, entryPoint = 0\<rparr> ''.strtab'' 0"
  "\<not> name_matches mem_syms 
     \<lparr>base = 0x10000, header = 0x10000, segments = 0x10140, sections = 0x10040,
      relocate = None, entryPoint = 0\<rparr> ''.strtab'' 1"
  "\<not> name_matches mem_syms 
     \<lparr>base = 0x10000, header = 0x10000, segments = 0x10140, sections = 0x10040,
      relocate = None, entryPoint = 0\<rparr> ''.symtab'' 2"
  "\<not> name_matches mem_syms 
     \<lparr>base = 0x10000, header = 0x10000, segments = 0x10140, sections = 0x10040,
      relocate = None, entryPoint = 0\<rparr> ''.symtab'' 3"
  "\<not> name_matches mem_syms 
     \<lparr>base = 0x10000, header = 0x10000, segments = 0x10140, sections = 0x10040,
      relocate = None, entryPoint = 0\<rparr> ''.bss'' 0"
  "\<not> name_matches mem_syms 
     \<lparr>base = 0x10000, header = 0x10000, segments = 0x10140, sections = 0x10040,
      relocate = None, entryPoint = 0\<rparr> ''.bss'' 1"
  "\<not> name_matches mem_syms 
     \<lparr>base = 0x10000, header = 0x10000, segments = 0x10140, sections = 0x10040,
      relocate = None, entryPoint = 0\<rparr> ''.bss'' 2"
  "\<not> name_matches mem_syms 
     \<lparr>base = 0x10000, header = 0x10000, segments = 0x10140, sections = 0x10040,
      relocate = None, entryPoint = 0\<rparr> ''.bss'' 3"
  by (simp_all add: name_matches_def syms_names syms_strcmp syms_more_strcmp nullptr_def
      del: strcmp.simps)

lemma syms_num_sections: "GetNumSections mem_syms 
     \<lparr>base = 0x10000, header = 0x10000, segments = 0x10140, sections = 0x10040,
      relocate = None, entryPoint = 0\<rparr> = 4"
  by (simp add: GetNumSections_def syms_shnum)

lemma syms_copies:
  "map (copy_event mem_syms 
     \<lparr>base = 0x10000, header = 0x10000, segments = 0x10140, sections = 0x10040,
      relocate = None, entryPoint = 0\<rparr> 0)
     (filter (\<lambda>p. p_type p = PT_LOAD) (program_headers mem_syms 
     \<lparr>base = 0x10000, header = 0x10000, segments = 0x10140, sections = 0x10040,
      relocate = None, entryPoint = 0\<rparr>)) =
   [MemCopy 0x3000 [0x6D, 0x61, 0x69, 0x6E]]"
  by (simp add: program_headers_def copy_event_def copy_bytes_def upt_rec
      reader_defs field_reads more_reads)

lemma syms_type: "e_type (Ehdr mem_syms 
     \<lparr>base = 0x10000, header = 0x10000, segments = 0x10140, sections = 0x10040,
      relocate = None, entryPoint = 0\<rparr>) = ET_EXEC"
  by (simp add: reader_defs field_reads more_reads)

lemma nobits_sections:
  "GetNumSections mem_nobits 
     \<lparr>base = 0x10000, header = 0x10000, segments = 0x10140, sections = 0x10040,
      relocate = None, entryPoint = 0\<rparr> = 4"
  "sh_type (Shdr mem_nobits 
     \<lparr>base = 0x10000, header = 0x10000, segments = 0x10140, sections = 0x10040,
      relocate = None, entryPoint = 0\<rparr> 2) = SHT_NOBITS"
  "sh_offset (Shdr mem_nobits 
     \<lparr>base = 0x10000, header = 0x10000, segments = 0x10140, sections = 0x10040,
      relocate = None, entryPoint = 0\<rparr> 2) = 0x110"
  "sh_size (Shdr mem_nobits 
     \<lparr>base = 0x10000, header = 0x10000, segments = 0x10140, sections = 0x10040,
      relocate = None, entryPoint = 0\<rparr> 2) = 10"
  "sh_type (Shdr mem_nobits 
     \<lparr>base = 0x10000, header = 0x10000, segments = 0x10140, sections = 0x10040,
      relocate = None, entryPoint = 0\<rparr> 1) = SHT_SYMTAB"
  "sh_offset (Shdr mem_nobits 
     \<lparr>base = 0x10000, header = 0x10000, segments = 0x10140, sections = 0x10040,
      relocate = None, entryPoint = 0\<rparr> 1) = 0xE0"
  by (simp_all add: reader_defs SHT_SYMTAB_def field_reads more_reads)

lemma image_symtab_nobits_read:
  "chunk_byte image_symtab_nobits x = chunk_byte ((108, [8]) # image_syms) x"
  by (simp only: image_symtab_nobits_def)

lemma image_far_read: "chunk_byte image_far x = chunk_byte ((123, [0x80]) # image_syms) x"
  by (simp only: image_far_def)

lemma image_overflow_read:
  "chunk_byte image_overflow x = chunk_byte ((1080, [164]) # (1092, [2]) # image_many) x"
  by (simp only: image_overflow_def)

lemma image_outside_read:
  "chunk_byte image_outside x = chunk_byte ((56, [0xF0, 0xFF, 0xFF, 0x7F]) # image_dyn) x"
  by (simp only: image_outside_def)

lemmas fault_reads = more_reads image_dyn_read image_exec_read image_many_read
  image_symtab_nobits_read image_far_read image_overflow_read image_outside_read



lemma symtab_nobits_reader:
  "fst (ElfReader_ctor mem_symtab_nobits 0x10000 es) =
     \<lparr>base = 0x10000, header = 0x10000, segments = 0x10140, sections = 0x10040,
      relocate = None, entryPoint = 0\<rparr>"
  by (simp add: ElfReader_ctor_def Let_def field_reads fault_reads)

lemma far_reader:
  "fst (ElfReader_ctor mem_far 0x100000000 es) =
     \<lparr>base = 0x100000000, header = 0x100000000, segments = 0x100000140,
      sections = 0x100000040, relocate = None, entryPoint = 0\<rparr>"
  by (simp add: ElfReader_ctor_def Let_def field_reads fault_reads)






lemma symtab_nobits_facts:
  "uint (e_shnum (Ehdr mem_symtab_nobits 
     \<lparr>base = 0x10000, header = 0x10000, segments = 0x10140, sections = 0x10040,
      relocate = None, entryPoint = 0\<rparr>)) = 4"
  "GetSectionName mem_symtab_nobits 
     \<lparr>base = 0x10000, header = 0x10000, segments = 0x10140, sections = 0x10040,
      relocate = None, entryPoint = 0\<rparr> 0 = 0"
  "GetSectionName mem_symtab_nobits 
     \<lparr>base = 0x10000, header = 0x10000, segments = 0x10140, sections = 0x10040,
      relocate = None, entryPoint = 0\<rparr> 1 = 0x10121"
  "strcmp mem_symtab_nobits ''.symtab'' 0x10121 = 0"
  "sh_type (Shdr mem_symtab_nobits 
     \<lparr>base = 0x10000, header = 0x10000, segments = 0x10140, sections = 0x10040,
      relocate = None, entryPoint = 0\<rparr> 1) = SHT_NOBITS"
  "sh_size (Shdr mem_symtab_nobits 
     \<lparr>base = 0x10000, header = 0x10000, segments = 0x10140, sections = 0x10040,
      relocate = None, entryPoint = 0\<rparr> 1) = 48"
  "GetSectionDataPtr mem_symtab_nobits 
     \<lparr>base = 0x10000, header = 0x10000, segments = 0x10140, sections = 0x10040,
      relocate = None, entryPoint = 0\<rparr> 1 = nullptr"
  by (simp_all add: reader_defs field_reads fault_reads Let_def)

lemma symtab_nobits_index:
  "GetSectionByName mem_symtab_nobits 
     \<lparr>base = 0x10000, header = 0x10000, segments = 0x10140, sections = 0x10040,
      relocate = None, entryPoint = 0\<rparr> ''.symtab'' 0 = 1"
  by (simp add: GetSectionByName_def GetSectionByName_loop.simps symtab_nobits_facts nullptr_def
      del: strcmp.simps split del: if_split)

lemma symtab_nobits_faults:
  "LoadSymbols_checked mem_symtab_nobits 
     \<lparr>base = 0x10000, header = 0x10000, segments = 0x10140, sections = 0x10040,
      relocate = None, entryPoint = 0\<rparr> [] = Inl NullDereference"
  by (simp add: LoadSymbols_checked_present[OF symtab_nobits_index] symtab_nobits_facts
      sizeof_Elf32_Sym_def)

lemma far_facts:
  "GetNumSections mem_far 
     \<lparr>base = 0x100000000, header = 0x100000000, segments = 0x100000140,
      sections = 0x100000040, relocate = None, entryPoint = 0\<rparr> = 4"
  "sh_type (Shdr mem_far 
     \<lparr>base = 0x100000000, header = 0x100000000, segments = 0x100000140,
      sections = 0x100000040, relocate = None, entryPoint = 0\<rparr> 1) = SHT_SYMTAB"
  "sh_offset (Shdr mem_far 
     \<lparr>base = 0x100000000, header = 0x100000000, segments = 0x100000140,
      sections = 0x100000040, relocate = None, entryPoint = 0\<rparr> 1) = 0x800000E0"
  by (simp_all add: reader_defs SHT_SYMTAB_def field_reads fault_reads)

text \<open>\<open>LoadSymbols_checked\<close> on the file without a section named \<^verbatim>\<open>.symtab\<close> and on the
  file with a symbol table.\<close>

lemma LoadSymbols_checked_examples:
  "LoadSymbols_checked mem_nosymtab 
     \<lparr>base = 0x10000, header = 0x10000, segments = 0x10140, sections = 0x10040,
      relocate = None, entryPoint = 0\<rparr> [] = Inr (False, [])"
  "LoadSymbols_checked mem_syms 
     \<lparr>base = 0x10000, header = 0x10000, segments = 0x10140, sections = 0x10040,
      relocate = None, entryPoint = 0\<rparr> [] =
     Inr (True, [SymbolsAdd 0x1000 0x10111 8 2, SymbolsAdd 0x2000 0x10116 4 1])"
proof -
  have "GetSectionByName mem_nosymtab 
     \<lparr>base = 0x10000, header = 0x10000, segments = 0x10140, sections = 0x10040,
      relocate = None, entryPoint = 0\<rparr> ''.symtab'' 0 = - 1"
    unfolding symtab_absent_iff nosymtab_shnum using nosymtab_no_match by blast
  then show "LoadSymbols_checked mem_nosymtab 
     \<lparr>base = 0x10000, header = 0x10000, segments = 0x10140, sections = 0x10040,
      relocate = None, entryPoint = 0\<rparr> [] = Inr (False, [])"
    by (rule LoadSymbols_checked_absent)
  show "LoadSymbols_checked mem_syms 
     \<lparr>base = 0x10000, header = 0x10000, segments = 0x10140, sections = 0x10040,
      relocate = None, entryPoint = 0\<rparr> [] =
     Inr (True, [SymbolsAdd 0x1000 0x10111 8 2, SymbolsAdd 0x2000 0x10116 4 1])"
    by (simp add: LoadSymbols_checked_present[OF syms_symtab_index] syms_symtab_section
        syms_LoadSymbols nullptr_def)
qed

section \<open>The claims\<close>

text \<open>
  Claim C1. For every memory and buffer pointer, a call of \<^verbatim>\<open>LoadInto\<close> on the reader just
  constructed sets \<^verbatim>\<open>relocate\<close> to true exactly when \<^verbatim>\<open>e_type\<close> is not \<^verbatim>\<open>ET_EXEC\<close>; with
  \<^verbatim>\<open>ET_EXEC\<close> the entry point is the header's \<^verbatim>\<open>e_entry\<close> unchanged, otherwise it is
  \<^verbatim>\<open>e_entry + vaddr\<close> (in 32-bit arithmetic).
\<close>

theorem LoadInto_relocate_and_entry: 
  "DidRelocate (reader (LoadInto m (fst (ElfReader_ctor m ptr es)) vaddr es')) =
      Some (e_type (read_Ehdr m ptr) \<noteq> ET_EXEC) \<and>
   (e_type (read_Ehdr m ptr) = ET_EXEC \<longrightarrow>
      GetEntryPoint (reader (LoadInto m (fst (ElfReader_ctor m ptr es)) vaddr es')) =
        e_entry (read_Ehdr m ptr)) \<and>
   (e_type (read_Ehdr m ptr) \<noteq> ET_EXEC \<longrightarrow>
      GetEntryPoint (reader (LoadInto m (fst (ElfReader_ctor m ptr es)) vaddr es')) =
        e_entry (read_Ehdr m ptr) + vaddr)"
  by (simp add: DidRelocate_def GetEntryPoint_def LoadInto_fields Ehdr_ctor ctor_fields)

theorem LoadInto_relocate_and_entry_witness:
  "DidRelocate (reader (LoadInto mem_dyn
       (fst (ElfReader_ctor mem_dyn 0x10000 [])) 0x100000 [])) = Some True \<and>
   GetEntryPoint (reader (LoadInto mem_dyn
       (fst (ElfReader_ctor mem_dyn 0x10000 [])) 0x100000 [])) = 0x100100 \<and>
   DidRelocate (reader (LoadInto mem_exec
       (fst (ElfReader_ctor mem_exec 0x10000 [])) 0x100000 [])) = Some False \<and>
   GetEntryPoint (reader (LoadInto mem_exec
       (fst (ElfReader_ctor mem_exec 0x10000 [])) 0x100000 [])) = 0x100"
proof -
  have d: "e_type (read_Ehdr mem_dyn 0x10000) = 3"
    "e_entry (read_Ehdr mem_dyn 0x10000) = 0x100"
    by (simp_all add: field_reads image_reads)
  have e: "e_type (read_Ehdr mem_exec 0x10000) = 2"
    "e_entry (read_Ehdr mem_exec 0x10000) = 0x100"
    by (simp_all add: field_reads image_reads)
  from LoadInto_relocate_and_entry[of "mem_dyn" "0x10000" "[]" "0x100000" "[]"]
       LoadInto_relocate_and_entry[of "mem_exec" "0x10000" "[]" "0x100000" "[]"]
  show ?thesis
    by (simp add: d e ET_EXEC_def)
qed




text \<open>
  Claim C3 holds on the runs in which \<^verbatim>\<open>LoadSymbols\<close> has a symbol table to read (lemma
  \<open>LoadSymbols_checked_reports\<close> above), and the code breaks it on the following input. In
  this file the section named \<^verbatim>\<open>.symtab\<close> has type \<^verbatim>\<open>SHT_NOBITS\<close> and a size of three
  entries. \<^verbatim>\<open>GetSectionDataPtr\<close> returns \<^verbatim>\<open>nullptr\<close> for it, and \<^verbatim>\<open>LoadSymbols\<close> reads
  \<^verbatim>\<open>symtab[0]\<close> through that pointer without the test \<^verbatim>\<open>GetSectionName\<close> makes on its
  pointer: the run ends in a dereference of \<^verbatim>\<open>nullptr\<close>, where the claim has it return and
  report.
\<close>

theorem LoadSymbols_null_symtab:
  "GetSectionByName mem_symtab_nobits (fst (ElfReader_ctor mem_symtab_nobits 0x10000 []))
      ''.symtab'' 0 = 1 \<and>
   sh_type (Shdr mem_symtab_nobits (fst (ElfReader_ctor mem_symtab_nobits 0x10000 [])) 1) =
      SHT_NOBITS \<and>
   unat (sh_size (Shdr mem_symtab_nobits (fst (ElfReader_ctor mem_symtab_nobits 0x10000 [])) 1))
      div sizeof_Elf32_Sym = 3 \<and>
   GetSectionDataPtr mem_symtab_nobits (fst (ElfReader_ctor mem_symtab_nobits 0x10000 [])) 1 =
      nullptr \<and>
   LoadSymbols_checked mem_symtab_nobits (fst (ElfReader_ctor mem_symtab_nobits 0x10000 [])) [] =
      Inl NullDereference"
  by (simp add: symtab_nobits_reader symtab_nobits_index symtab_nobits_facts
      symtab_nobits_faults sizeof_Elf32_Sym_def)

theorem LoadSymbols_null_symtab_witness:
  "LoadSymbols_checked mem_symtab_nobits (fst (ElfReader_ctor mem_symtab_nobits 0x10000 [])) [] \<noteq>
     Inr (LoadSymbols mem_symtab_nobits (fst (ElfReader_ctor mem_symtab_nobits 0x10000 [])) [])"
  using LoadSymbols_null_symtab by simp

text \<open>
  Claim C4. \<^verbatim>\<open>GetSectionByName\<close> returns \<open>-1\<close> when no section from \<^verbatim>\<open>firstSection\<close> up to
  \<^verbatim>\<open>e_shnum\<close> matches, and otherwise the index of the first section that does. A section
  matches when its name pointer is not null and \<^verbatim>\<open>strcmp\<close> gives 0, which for a name
  without NUL says that exactly the characters of the name and then a NUL stand at the
  pointer. The name pointer is the data pointer of section \<^verbatim>\<open>e_shstrndx\<close> plus \<^verbatim>\<open>sh_name\<close>;
  for a section of type \<^verbatim>\<open>SHT_NULL\<close> it is null, so that such a section never matches.
\<close>

theorem GetSectionByName_first_match:
  "((\<forall>k. firstSection \<le> k \<and> k < GetNumSections m r \<longrightarrow> \<not> name_matches m r name k) \<longrightarrow>
      GetSectionByName m r name firstSection = - 1) \<and>
   (firstSection \<le> k \<and> k < GetNumSections m r \<and> name_matches m r name k \<and>
    (\<forall>j. firstSection \<le> j \<and> j < k \<longrightarrow> \<not> name_matches m r name j) \<longrightarrow>
      GetSectionByName m r name firstSection = k) \<and>
   (sh_type (Shdr m r k) = SHT_NULL \<longrightarrow>
      GetSectionName m r k = nullptr \<and> \<not> name_matches m r name k) \<and>
   (sh_type (Shdr m r k) \<noteq> SHT_NULL \<and>
    GetSectionDataPtr m r (uint (e_shstrndx (Ehdr m r))) \<noteq> nullptr \<longrightarrow>
      GetSectionName m r k =
        GetSectionDataPtr m r (uint (e_shstrndx (Ehdr m r))) + sint (sh_name (Shdr m r k))) \<and>
   ((\<forall>c. c \<in> set name \<longrightarrow> (of_char c :: u8) \<noteq> 0) \<longrightarrow>
      name_matches m r name k =
        (GetSectionName m r k \<noteq> nullptr \<and> cstring_at m (GetSectionName m r k) name))"
proof (intro conjI impI)
  assume "\<forall>k. firstSection \<le> k \<and> k < GetNumSections m r \<longrightarrow> \<not> name_matches m r name k"
  then show "GetSectionByName m r name firstSection = - 1"
    unfolding GetSectionByName_def
    by (intro GetSectionByName_loop_none) (simp add: GetNumSections_def)
next
  assume "firstSection \<le> k \<and> k < GetNumSections m r \<and> name_matches m r name k \<and>
    (\<forall>j. firstSection \<le> j \<and> j < k \<longrightarrow> \<not> name_matches m r name j)"
  then show "GetSectionByName m r name firstSection = k"
    unfolding GetSectionByName_def
    by (intro GetSectionByName_loop_first) (simp_all add: GetNumSections_def)
next
  assume "sh_type (Shdr m r k) = SHT_NULL"
  then show "GetSectionName m r k = nullptr" by (simp add: GetSectionName_def)
next
  assume "sh_type (Shdr m r k) = SHT_NULL"
  then show "\<not> name_matches m r name k" by (simp add: GetSectionName_def name_matches_def)
next
  assume "sh_type (Shdr m r k) \<noteq> SHT_NULL \<and>
    GetSectionDataPtr m r (uint (e_shstrndx (Ehdr m r))) \<noteq> nullptr"
  then show "GetSectionName m r k =
        GetSectionDataPtr m r (uint (e_shstrndx (Ehdr m r))) + sint (sh_name (Shdr m r k))"
    by (simp add: GetSectionName_def Let_def)
next
  assume "\<forall>c. c \<in> set name \<longrightarrow> (of_char c :: u8) \<noteq> 0"
  then show "name_matches m r name k =
        (GetSectionName m r k \<noteq> nullptr \<and> cstring_at m (GetSectionName m r k) name)"
    by (simp add: name_matches_def strcmp_zero_iff)
qed

theorem GetSectionByName_first_match_witness:
  "GetSectionByName mem_syms (fst (ElfReader_ctor mem_syms 0x10000 [])) ''.strtab'' 0 = 2 \<and>
   GetSectionByName mem_syms (fst (ElfReader_ctor mem_syms 0x10000 [])) ''.bss'' 0 = - 1 \<and>
   GetSectionByName mem_syms (fst (ElfReader_ctor mem_syms 0x10000 [])) ''.symtab'' 2 = - 1 \<and>
   GetSectionName mem_syms (fst (ElfReader_ctor mem_syms 0x10000 [])) 0 = nullptr \<and>
   GetSectionName mem_syms (fst (ElfReader_ctor mem_syms 0x10000 [])) 2 = 0x10129 \<and>
   cstring_at mem_syms 0x10129 ''.strtab''"
proof -
  note m = syms_matches [folded syms_reader [of "[]"]]
  note n = syms_num_sections [folded syms_reader [of "[]"]]
  note g = syms_names [folded syms_reader [of "[]"]]
  have two: "j = 0 \<or> j = 1" if "0 \<le> j \<and> j < 2" for j :: int
    using that by arith
  have four: "j = 0 \<or> j = 1 \<or> j = 2 \<or> j = 3" if "0 \<le> j \<and> j < 4" for j :: int
    using that by arith
  have last: "j = 2 \<or> j = 3" if "2 \<le> j \<and> j < 4" for j :: int
    using that by arith
  have h1: "\<forall>j. 0 \<le> j \<and> j < 2 \<longrightarrow> \<not> name_matches mem_syms (fst (ElfReader_ctor mem_syms 0x10000 [])) ''.strtab'' j"
    using two m by blast
  have h2: "\<forall>k. 0 \<le> k \<and> k < GetNumSections mem_syms (fst (ElfReader_ctor mem_syms 0x10000 [])) \<longrightarrow>
      \<not> name_matches mem_syms (fst (ElfReader_ctor mem_syms 0x10000 [])) ''.bss'' k"
    unfolding n using four m by blast
  have h3: "\<forall>k. 2 \<le> k \<and> k < GetNumSections mem_syms (fst (ElfReader_ctor mem_syms 0x10000 [])) \<longrightarrow>
      \<not> name_matches mem_syms (fst (ElfReader_ctor mem_syms 0x10000 [])) ''.symtab'' k"
    unfolding n using last m by blast
  have nz: "\<forall>c. c \<in> set ''.strtab'' \<longrightarrow> (of_char c :: u8) \<noteq> 0"
    by simp
  from GetSectionByName_first_match[of 0 "mem_syms" "fst (ElfReader_ctor mem_syms 0x10000 [])" "''.strtab''" 2] h1 m(2) n
  have a: "GetSectionByName mem_syms (fst (ElfReader_ctor mem_syms 0x10000 [])) ''.strtab'' 0 = 2" by simp
  from GetSectionByName_first_match[of 0 "mem_syms" "fst (ElfReader_ctor mem_syms 0x10000 [])" "''.bss''" 0] h2
  have b: "GetSectionByName mem_syms (fst (ElfReader_ctor mem_syms 0x10000 [])) ''.bss'' 0 = - 1" by blast
  from GetSectionByName_first_match[of 2 "mem_syms" "fst (ElfReader_ctor mem_syms 0x10000 [])" "''.symtab''" 0] h3
  have c: "GetSectionByName mem_syms (fst (ElfReader_ctor mem_syms 0x10000 [])) ''.symtab'' 2 = - 1" by blast
  from GetSectionByName_first_match[of 0 "mem_syms" "fst (ElfReader_ctor mem_syms 0x10000 [])" "''.strtab''" 2] nz m(2)
  have d: "cstring_at mem_syms (GetSectionName mem_syms (fst (ElfReader_ctor mem_syms 0x10000 [])) 2) ''.strtab''" by blast
  from a b c d g show ?thesis by (simp add: nullptr_def)
qed

text \<open>
  Claim C5, as amended. \<^verbatim>\<open>GetSectionDataPtr\<close> returns \<^verbatim>\<open>nullptr\<close> for an index that is
  negative or not below \<^verbatim>\<open>e_shnum\<close>, and for a section of type \<^verbatim>\<open>SHT_NOBITS\<close> whatever its
  size and offset. Otherwise it returns \<^verbatim>\<open>GetPtr(sh_offset)\<close>, with the offset converted to
  \<^verbatim>\<open>int\<close>: the address \<^verbatim>\<open>base + sh_offset\<close> for an offset below \<open>2^31\<close>, and
  \<^verbatim>\<open>base + sh_offset - 2^32\<close>, an address before the buffer, for an offset from \<open>2^31\<close> on.

  As stated (the view of the image starting at \<^verbatim>\<open>sh_offset\<close>, for every section) the claim
  fails: in the counterexample section 1 has the offset \<open>0x800000E0\<close> and the pointer
  returned is not \<^verbatim>\<open>base + sh_offset\<close>.
\<close>

theorem GetSectionDataPtr_cases:
  "(section < 0 \<or> GetNumSections m r \<le> section \<longrightarrow> GetSectionDataPtr m r section = nullptr) \<and>
   (sh_type (Shdr m r section) = SHT_NOBITS \<longrightarrow> GetSectionDataPtr m r section = nullptr) \<and>
   (0 \<le> section \<and> section < GetNumSections m r \<and> sh_type (Shdr m r section) \<noteq> SHT_NOBITS \<longrightarrow>
      GetSectionDataPtr m r section =
        (if uint (sh_offset (Shdr m r section)) < 2 ^ 31
         then base r + uint (sh_offset (Shdr m r section))
         else base r + uint (sh_offset (Shdr m r section)) - 2 ^ 32))"
  by (auto simp: GetSectionDataPtr_def GetNumSections_def GetPtr_def sint_32_cases)

theorem GetSectionDataPtr_cases_witness:
  "GetSectionDataPtr mem_nobits (fst (ElfReader_ctor mem_nobits 0x10000 [])) (- 1) = nullptr \<and>
   GetSectionDataPtr mem_nobits (fst (ElfReader_ctor mem_nobits 0x10000 [])) 4 = nullptr \<and>
   sh_type (Shdr mem_nobits (fst (ElfReader_ctor mem_nobits 0x10000 [])) 2) = SHT_NOBITS \<and>
   sh_offset (Shdr mem_nobits (fst (ElfReader_ctor mem_nobits 0x10000 [])) 2) = 0x110 \<and>
   sh_size (Shdr mem_nobits (fst (ElfReader_ctor mem_nobits 0x10000 [])) 2) = 10 \<and>
   GetSectionDataPtr mem_nobits (fst (ElfReader_ctor mem_nobits 0x10000 [])) 2 = nullptr \<and>
   GetSectionDataPtr mem_nobits (fst (ElfReader_ctor mem_nobits 0x10000 [])) 1 = 0x100E0 \<and>
   sh_offset (Shdr mem_far (fst (ElfReader_ctor mem_far 0x100000000 [])) 1) = 0x800000E0 \<and>
   GetSectionDataPtr mem_far (fst (ElfReader_ctor mem_far 0x100000000 [])) 1 = 0x800000E0"
proof -
  note f = nobits_sections [folded nobits_reader [of "[]"]]
  note g = far_facts [folded far_reader [of "[]"]]
  have base: "base (fst (ElfReader_ctor mem_nobits 0x10000 [])) = 0x10000"
    "base (fst (ElfReader_ctor mem_far 0x100000000 [])) = 0x100000000"
    by (simp_all add: nobits_reader far_reader)
  from GetSectionDataPtr_cases[of "- 1" mem_nobits "fst (ElfReader_ctor mem_nobits 0x10000 [])"] f
  have a: "GetSectionDataPtr mem_nobits (fst (ElfReader_ctor mem_nobits 0x10000 [])) (- 1) = nullptr"
    by simp
  from GetSectionDataPtr_cases[of 4 mem_nobits "fst (ElfReader_ctor mem_nobits 0x10000 [])"] f
  have b: "GetSectionDataPtr mem_nobits (fst (ElfReader_ctor mem_nobits 0x10000 [])) 4 = nullptr"
    by simp
  from GetSectionDataPtr_cases[of 2 mem_nobits "fst (ElfReader_ctor mem_nobits 0x10000 [])"] f
  have c: "GetSectionDataPtr mem_nobits (fst (ElfReader_ctor mem_nobits 0x10000 [])) 2 = nullptr"
    by simp
  from GetSectionDataPtr_cases[of 1 mem_nobits "fst (ElfReader_ctor mem_nobits 0x10000 [])"] f base
  have d: "GetSectionDataPtr mem_nobits (fst (ElfReader_ctor mem_nobits 0x10000 [])) 1 = 0x100E0"
    by (simp add: SHT_SYMTAB_def SHT_NOBITS_def)
  from GetSectionDataPtr_cases[of 1 mem_far "fst (ElfReader_ctor mem_far 0x100000000 [])"] g base
  have e: "GetSectionDataPtr mem_far (fst (ElfReader_ctor mem_far 0x100000000 [])) 1 = 0x800000E0"
    by (simp add: SHT_SYMTAB_def SHT_NOBITS_def)
  from a b c d e f g show ?thesis by simp
qed

theorem GetSectionDataPtr_cases_counterexample:
  "1 < GetNumSections mem_far (fst (ElfReader_ctor mem_far 0x100000000 [])) \<and>
   sh_type (Shdr mem_far (fst (ElfReader_ctor mem_far 0x100000000 [])) 1) \<noteq> SHT_NOBITS \<and>
   GetSectionDataPtr mem_far (fst (ElfReader_ctor mem_far 0x100000000 [])) 1 \<noteq>
     base (fst (ElfReader_ctor mem_far 0x100000000 [])) +
     uint (sh_offset (Shdr mem_far (fst (ElfReader_ctor mem_far 0x100000000 [])) 1))"
  by (simp add: far_reader far_facts SHT_SYMTAB_def SHT_NOBITS_def)
     (simp add: GetSectionDataPtr_def GetPtr_def far_facts[simplified GetNumSections_def]
        SHT_SYMTAB_def SHT_NOBITS_def nullptr_def)




text \<open>
  Claim C7. The constructor reports the symbols by one call of \<^verbatim>\<open>LoadSymbols\<close>: what it
  adds to the events are \<^verbatim>\<open>Symbols::Add\<close> calls only, and with a \<^verbatim>\<open>.symtab\<close> section present
  they are its entries of non-zero size. A later \<^verbatim>\<open>LoadInto\<close> adds copies only, after
  them, and leaves the reported symbols as they are.
\<close>

theorem ctor_reports_symbols_once:
  "snd (ElfReader_ctor m ptr es) = snd (LoadSymbols m (fst (ElfReader_ctor m ptr es)) es) \<and>
   (\<exists>syms. snd (ElfReader_ctor m ptr es) = es @ syms \<and> list_all is_SymbolsAdd syms) \<and>
   ((\<exists>k. 0 \<le> k \<and> k < GetNumSections m (fst (ElfReader_ctor m ptr es)) \<and>
         name_matches m (fst (ElfReader_ctor m ptr es)) ''.symtab'' k) \<longrightarrow>
      snd (ElfReader_ctor m ptr es) =
        es @ map (symbol_event (GetSectionDataPtr m (fst (ElfReader_ctor m ptr es))
                    (sint (sh_link (Shdr m (fst (ElfReader_ctor m ptr es))
                       (GetSectionByName m (fst (ElfReader_ctor m ptr es)) ''.symtab'' 0))))))
               (filter (\<lambda>s. st_size s \<noteq> 0)
                  (symbol_entries m (fst (ElfReader_ctor m ptr es))
                     (GetSectionByName m (fst (ElfReader_ctor m ptr es)) ''.symtab'' 0)))) \<and>
   (\<exists>copies.
      events (LoadInto m (fst (ElfReader_ctor m ptr es)) vaddr (snd (ElfReader_ctor m ptr es))) =
        snd (ElfReader_ctor m ptr es) @ copies \<and> list_all is_MemCopy copies) \<and>
   filter is_SymbolsAdd
      (events (LoadInto m (fst (ElfReader_ctor m ptr es)) vaddr (snd (ElfReader_ctor m ptr es)))) =
     filter is_SymbolsAdd (snd (ElfReader_ctor m ptr es))"
proof -
  define r where "r = fst (ElfReader_ctor m ptr es)"
  define es1 where "es1 = snd (ElfReader_ctor m ptr es)"
  have a: "es1 = snd (LoadSymbols m r es)"
    by (simp add: es1_def r_def ctor_events)
  have b: "\<exists>syms. es1 = es @ syms \<and> list_all is_SymbolsAdd syms"
    unfolding a by (rule LoadSymbols_only_symbols)
  have c: "es1 = es @ map (symbol_event (GetSectionDataPtr m r
                    (sint (sh_link (Shdr m r (GetSectionByName m r ''.symtab'' 0))))))
               (filter (\<lambda>s. st_size s \<noteq> 0)
                  (symbol_entries m r (GetSectionByName m r ''.symtab'' 0)))"
    if "\<exists>k. 0 \<le> k \<and> k < GetNumSections m r \<and> name_matches m r ''.symtab'' k"
  proof -
    from that obtain k where "0 \<le> k" "k < GetNumSections m r" "name_matches m r ''.symtab'' k"
      by blast
    from symtab_first_match[OF this] have "GetSectionByName m r ''.symtab'' 0 \<noteq> - 1" by simp
    from LoadSymbols_present_events[OF refl this] show ?thesis by (simp add: a)
  qed
  obtain copies where d: "events (LoadInto m r vaddr es1) = es1 @ copies"
    "list_all is_MemCopy copies"
    using LoadInto_only_copies[of m r vaddr es1] by blast
  have x: "is_MemCopy ev \<Longrightarrow> \<not> is_SymbolsAdd ev" for ev
    by (cases ev) simp_all
  have "filter is_SymbolsAdd copies = []"
    using d(2) x by (auto simp: filter_empty_conv list_all_iff)
  then have e: "filter is_SymbolsAdd (events (LoadInto m r vaddr es1)) = filter is_SymbolsAdd es1"
    by (simp add: d(1))
  from a b c d e show ?thesis
    unfolding r_def es1_def by blast
qed

theorem ctor_reports_symbols_once_witness:
  "snd (ElfReader_ctor mem_syms 0x10000 []) = [SymbolsAdd 0x1000 0x10111 8 2, SymbolsAdd 0x2000 0x10116 4 1] \<and>
   events (LoadInto mem_syms (fst (ElfReader_ctor mem_syms 0x10000 [])) 0x100000 (snd (ElfReader_ctor mem_syms 0x10000 []))) =
     [SymbolsAdd 0x1000 0x10111 8 2, SymbolsAdd 0x2000 0x10116 4 1,
      MemCopy 0x3000 [0x6D, 0x61, 0x69, 0x6E]] \<and>
   filter is_SymbolsAdd (events (LoadInto mem_syms (fst (ElfReader_ctor mem_syms 0x10000 [])) 0x100000 (snd (ElfReader_ctor mem_syms 0x10000 [])))) =
     [SymbolsAdd 0x1000 0x10111 8 2, SymbolsAdd 0x2000 0x10116 4 1]"
proof -
  have e: "\<exists>k. 0 \<le> k \<and> k < GetNumSections mem_syms (fst (ElfReader_ctor mem_syms 0x10000 [])) \<and> name_matches mem_syms (fst (ElfReader_ctor mem_syms 0x10000 [])) ''.symtab'' k"
    by (rule exI[of _ 1]) (simp add: syms_reader syms_num_sections syms_matches)
  note t = ctor_reports_symbols_once[of "mem_syms" "0x10000" "[]" "0x100000"]
  from t e have "snd (ElfReader_ctor mem_syms 0x10000 []) =
        [] @ map (symbol_event (GetSectionDataPtr mem_syms (fst (ElfReader_ctor mem_syms 0x10000 []))
                    (sint (sh_link (Shdr mem_syms (fst (ElfReader_ctor mem_syms 0x10000 [])) (GetSectionByName mem_syms (fst (ElfReader_ctor mem_syms 0x10000 [])) ''.symtab'' 0))))))
               (filter (\<lambda>s. st_size s \<noteq> 0)
                  (symbol_entries mem_syms (fst (ElfReader_ctor mem_syms 0x10000 [])) (GetSectionByName mem_syms (fst (ElfReader_ctor mem_syms 0x10000 [])) ''.symtab'' 0)))"
    by blast
  then have a: "snd (ElfReader_ctor mem_syms 0x10000 []) = [SymbolsAdd 0x1000 0x10111 8 2, SymbolsAdd 0x2000 0x10116 4 1]"
    by (simp add: syms_reader syms_symtab_index syms_symtab_section syms_symbols)
  from t have "filter is_SymbolsAdd (events (LoadInto mem_syms (fst (ElfReader_ctor mem_syms 0x10000 [])) 0x100000 (snd (ElfReader_ctor mem_syms 0x10000 [])))) =
     filter is_SymbolsAdd (snd (ElfReader_ctor mem_syms 0x10000 []))"
    by blast
  then have b: "filter is_SymbolsAdd (events (LoadInto mem_syms (fst (ElfReader_ctor mem_syms 0x10000 [])) 0x100000 (snd (ElfReader_ctor mem_syms 0x10000 [])))) =
     [SymbolsAdd 0x1000 0x10111 8 2, SymbolsAdd 0x2000 0x10116 4 1]"
    by (simp add: a)
  have c: "events (LoadInto mem_syms (fst (ElfReader_ctor mem_syms 0x10000 [])) 0x100000 (snd (ElfReader_ctor mem_syms 0x10000 []))) =
     [SymbolsAdd 0x1000 0x10111 8 2, SymbolsAdd 0x2000 0x10116 4 1,
      MemCopy 0x3000 [0x6D, 0x61, 0x69, 0x6E]]"
    by (simp add: LoadInto_events a syms_reader syms_type syms_copies)
  from a b c show ?thesis by simp
qed

text \<open>
  Claim C8. Two constructions over the same memory and pointer, whatever was reported
  before each of them, give the same section count, segment count and section name
  pointers, and report the same symbols.
\<close>

theorem ctor_deterministic:
  assumes "m1 = m2" and "ptr1 = ptr2"
  shows "GetNumSections m1 (fst (ElfReader_ctor m1 ptr1 es1)) =
           GetNumSections m2 (fst (ElfReader_ctor m2 ptr2 es2)) \<and>
         GetNumSegments m1 (fst (ElfReader_ctor m1 ptr1 es1)) =
           GetNumSegments m2 (fst (ElfReader_ctor m2 ptr2 es2)) \<and>
         GetSectionName m1 (fst (ElfReader_ctor m1 ptr1 es1)) i =
           GetSectionName m2 (fst (ElfReader_ctor m2 ptr2 es2)) i \<and>
         (\<exists>syms. snd (ElfReader_ctor m1 ptr1 es1) = es1 @ syms \<and>
                 snd (ElfReader_ctor m2 ptr2 es2) = es2 @ syms)"
proof -
  have r: "fst (ElfReader_ctor m1 ptr1 es1) = fst (ElfReader_ctor m2 ptr2 es2)"
    unfolding assms by (rule ctor_reader_independent)
  have "snd (ElfReader_ctor m2 ptr2 es) =
      es @ snd (LoadSymbols m2 (fst (ElfReader_ctor m2 ptr2 es2)) [])" for es
    using LoadSymbols_appends[of m2 "fst (ElfReader_ctor m2 ptr2 es)" es]
    by (simp add: ctor_events ctor_reader_independent[of m2 ptr2 es es2])
  then have "\<exists>syms. snd (ElfReader_ctor m1 ptr1 es1) = es1 @ syms \<and>
                 snd (ElfReader_ctor m2 ptr2 es2) = es2 @ syms"
    unfolding assms by blast
  with r show ?thesis by (simp add: assms)
qed

theorem ctor_deterministic_witness:
  "GetNumSections mem_syms (fst (ElfReader_ctor mem_syms 0x10000 [])) = 4 \<and>
   GetNumSections mem_syms (fst (ElfReader_ctor mem_syms 0x10000 [MemCopy 0 []])) = 4 \<and>
   GetNumSegments mem_syms (fst (ElfReader_ctor mem_syms 0x10000 [])) =
     GetNumSegments mem_syms (fst (ElfReader_ctor mem_syms 0x10000 [MemCopy 0 []])) \<and>
   GetSectionName mem_syms (fst (ElfReader_ctor mem_syms 0x10000 [])) 1 =
     GetSectionName mem_syms (fst (ElfReader_ctor mem_syms 0x10000 [MemCopy 0 []])) 1 \<and>
   snd (ElfReader_ctor mem_syms 0x10000 []) = [SymbolsAdd 0x1000 0x10111 8 2, SymbolsAdd 0x2000 0x10116 4 1] \<and>
   snd (ElfReader_ctor mem_syms 0x10000 [MemCopy 0 []]) =
     [MemCopy 0 [], SymbolsAdd 0x1000 0x10111 8 2, SymbolsAdd 0x2000 0x10116 4 1]"
proof -
  note t = ctor_deterministic[OF refl refl, of "mem_syms" "0x10000" "[]" "[MemCopy 0 []]" 1]
  have a: "snd (ElfReader_ctor mem_syms 0x10000 []) = [SymbolsAdd 0x1000 0x10111 8 2, SymbolsAdd 0x2000 0x10116 4 1]"
    by (simp add: ctor_events syms_reader syms_LoadSymbols)
  from t obtain syms where s: "snd (ElfReader_ctor mem_syms 0x10000 []) = [] @ syms"
    "snd (ElfReader_ctor mem_syms 0x10000 [MemCopy 0 []]) = [MemCopy 0 []] @ syms"
    by blast
  from s a have b: "snd (ElfReader_ctor mem_syms 0x10000 [MemCopy 0 []]) =
     [MemCopy 0 [], SymbolsAdd 0x1000 0x10111 8 2, SymbolsAdd 0x2000 0x10116 4 1]"
    by simp
  have n: "GetNumSections mem_syms (fst (ElfReader_ctor mem_syms 0x10000 [])) = 4"
    by (simp add: syms_reader syms_num_sections)
  from t n a b show ?thesis by simp
qed

text \<open>
  Claim C9. The local array \<^verbatim>\<open>segment_addr\<close> has 32 cells. With \<^verbatim>\<open>e_phnum\<close> at most 32 no
  store of \<^verbatim>\<open>LoadInto\<close> falls outside it; a \<^verbatim>\<open>PT_LOAD\<close> header at an index \<open>i\<close> with
  \<open>32 \<le> i < e_phnum\<close> makes the store for \<open>i\<close> fall outside.
\<close>

theorem segment_addr_store_bounds:
  "length (segment_addr (LoadInto m r vaddr es)) = 32 \<and>
   (GetNumSegments m r \<le> 32 \<longrightarrow> stray_stores (LoadInto m r vaddr es) = []) \<and>
   (\<forall>i. 32 \<le> i \<and> int i < GetNumSegments m r \<and> p_type (Phdr m r (int i)) = PT_LOAD \<longrightarrow>
      i \<in> set (stray_stores (LoadInto m r vaddr es)))"
proof -
  define N where "N = unat (e_phnum (Ehdr m r))"
  have n: "GetNumSegments m r = int N"
    by (simp add: GetNumSegments_def N_def)
  have s: "stray_stores (LoadInto m r vaddr es) =
      filter (\<lambda>k. p_type (Phdr m r (int k)) = PT_LOAD \<and> \<not> k < 32) [0..<N]"
    by (simp add: LoadInto_stray N_def)
  show ?thesis
    unfolding s n
    by (auto simp: LoadInto_array_length filter_empty_conv)
qed

theorem segment_addr_store_bounds_witness:
  "GetNumSegments mem_dyn
      (fst (ElfReader_ctor mem_dyn 0x10000 [])) = 3 \<and>
   stray_stores (LoadInto mem_dyn
      (fst (ElfReader_ctor mem_dyn 0x10000 [])) 0x100000 []) = [] \<and>
   GetNumSegments mem_many
      (fst (ElfReader_ctor mem_many 0x10000 [])) = 33 \<and>
   p_type (Phdr mem_many
      (fst (ElfReader_ctor mem_many 0x10000 [])) 32) = PT_LOAD \<and>
   32 \<in> set (stray_stores (LoadInto mem_many
      (fst (ElfReader_ctor mem_many 0x10000 [])) 0x100000 []))"
proof -
  have a: "GetNumSegments mem_dyn
      (fst (ElfReader_ctor mem_dyn 0x10000 [])) = 3"
    by (simp add: dyn_reader reader_defs field_reads image_reads)
  have b: "GetNumSegments mem_many
      (fst (ElfReader_ctor mem_many 0x10000 [])) = 33"
    by (simp add: many_reader reader_defs field_reads image_reads)
  have c: "p_type (Phdr mem_many
      (fst (ElfReader_ctor mem_many 0x10000 [])) (int 32)) = PT_LOAD"
    by (simp add: many_reader reader_defs field_reads image_reads)
  from segment_addr_store_bounds[of "mem_dyn"
      "fst (ElfReader_ctor mem_dyn 0x10000 [])" "0x100000" "[]"] a
  have d: "stray_stores (LoadInto mem_dyn
      (fst (ElfReader_ctor mem_dyn 0x10000 [])) 0x100000 []) = []"
    by simp
  from segment_addr_store_bounds[of "mem_many"
      "fst (ElfReader_ctor mem_many 0x10000 [])" "0x100000" "[]"]
  have "32 \<le> (32::nat) \<and> int 32 < GetNumSegments mem_many
      (fst (ElfReader_ctor mem_many 0x10000 [])) \<and>
      p_type (Phdr mem_many
      (fst (ElfReader_ctor mem_many 0x10000 [])) (int 32)) = PT_LOAD \<longrightarrow>
      32 \<in> set (stray_stores (LoadInto mem_many
      (fst (ElfReader_ctor mem_many 0x10000 [])) 0x100000 []))"
    by blast
  with b c have e: "32 \<in> set (stray_stores (LoadInto mem_many
      (fst (ElfReader_ctor mem_many 0x10000 [])) 0x100000 []))"
    by simp
  from a b c d e show ?thesis by simp
qed

text \<open>
  Claim C10. For a reader over a file whose type is not \<^verbatim>\<open>ET_EXEC\<close>, after \<open>n\<close> calls of
  \<^verbatim>\<open>LoadInto\<close> with base \<open>vaddr\<close> the entry point is \<^verbatim>\<open>e_entry + n * vaddr\<close> (in 32-bit
  arithmetic); for a base other than 0, two calls leave another entry point than one.
\<close>

theorem entry_point_accumulates:
  assumes "e_type (read_Ehdr m ptr) \<noteq> ET_EXEC"
  shows "GetEntryPoint (fst (LoadInto_times m vaddr n (ElfReader_ctor m ptr es))) =
           e_entry (read_Ehdr m ptr) + of_nat n * vaddr \<and>
         (vaddr \<noteq> 0 \<longrightarrow>
            GetEntryPoint (fst (LoadInto_times m vaddr 2 (ElfReader_ctor m ptr es))) \<noteq>
            GetEntryPoint (fst (LoadInto_times m vaddr 1 (ElfReader_ctor m ptr es))))"
proof -
  obtain r es1 where c: "ElfReader_ctor m ptr es = (r, es1)" by (cases "ElfReader_ctor m ptr es")
  then have r: "r = fst (ElfReader_ctor m ptr es)" by simp
  have t: "e_type (Ehdr m r) \<noteq> ET_EXEC" using assms by (simp add: r Ehdr_ctor)
  have e: "entryPoint r = e_entry (read_Ehdr m ptr)" by (simp add: r ctor_fields)
  have k: "GetEntryPoint (fst (LoadInto_times m vaddr k (ElfReader_ctor m ptr es))) =
      e_entry (read_Ehdr m ptr) + of_nat k * vaddr" for k
    using LoadInto_times_entry[OF t, of vaddr k es1] by (simp add: c e GetEntryPoint_def)
  show ?thesis
    using k[of n] k[of 2] k[of 1] by simp
qed

theorem entry_point_accumulates_witness:
  "e_type (read_Ehdr mem_dyn 0x10000) \<noteq> ET_EXEC \<and>
   GetEntryPoint (fst (LoadInto_times mem_dyn 0x100000 3
      (ElfReader_ctor mem_dyn 0x10000 []))) = 0x300100 \<and>
   GetEntryPoint (fst (LoadInto_times mem_dyn 0x100000 2
      (ElfReader_ctor mem_dyn 0x10000 []))) \<noteq>
   GetEntryPoint (fst (LoadInto_times mem_dyn 0x100000 1
      (ElfReader_ctor mem_dyn 0x10000 [])))"
proof -
  have d: "e_type (read_Ehdr mem_dyn 0x10000) = 3"
    "e_entry (read_Ehdr mem_dyn 0x10000) = 0x100"
    by (simp_all add: field_reads image_reads)
  have h: "e_type (read_Ehdr mem_dyn 0x10000) \<noteq> ET_EXEC"
    by (simp add: d ET_EXEC_def)
  from entry_point_accumulates[OF h, of "0x100000" 3 "[]"] h show ?thesis
    by (simp add: d)
qed

end
